theory Spec2Isabelle
  imports Main "HOL-Library.Word"
begin

unbundle bit_operations_syntax

section \<open>Basic types\<close>

text \<open>
  Go's \<^verbatim>\<open>[]byte\<close> is a list of 8-bit words. A slice is modelled by its contents: the
  \<^verbatim>\<open>nil\<close> slice and the empty slice are both \<open>[]\<close> (Go's \<^verbatim>\<open>len\<close>, \<^verbatim>\<open>append\<close> and
  \<^verbatim>\<open>bytes.Equal\<close> do not tell them apart), and the capacity of a slice is its length, as
  it is for the frame bodies the readers allocate with \<^verbatim>\<open>make([]byte, length)\<close>.
  \<^verbatim>\<open>uint64\<close> is \<open>64 word\<close>, so \<open>+\<close> wraps around as in Go.
\<close>

type_synonym byte = "8 word"
type_synonym bytes = "byte list"
type_synonym u16 = "16 word"
type_synonym u64 = "64 word"

text \<open>
  Go errors. The sentinel values of the packages are constructors; \<open>ErrorNew\<close> is
  \<^verbatim>\<open>errors.New\<close> or a \<^verbatim>\<open>fmt.Errorf\<close> without \<^verbatim>\<open>%w\<close>, \<open>Wrap\<close> is \<^verbatim>\<open>fmt.Errorf("...: %w", err)\<close>.
\<close>

datatype error =
    ErrVersionMismatch
  | ErrLeaderClosed
  | ErrLeaderAlreadyExists
  | ErrInvalidSocket
  | ErrLeaderFailedToWrite
  | ErrFileNotOpen
  | ErrUnexpectedFileVersion
  | ErrOffsetOutOfRange
  | ErrNextOffsetOutOfRange
  | ErrNotExist
  | ErrClosed
  | EOF
  | ErrorNew string
  | Wrap string error

fun errors_Is :: "error \<Rightarrow> error \<Rightarrow> bool" where
  "errors_Is (Wrap msg e) target = (Wrap msg e = target \<or> errors_Is e target)"
| "errors_Is e target = (e = target)"

text \<open>
  The outcome of a call that can return an error or panic (an out-of-range slice
  expression, a method call on a nil interface value).
\<close>

datatype 'a result = Ok 'a | Err error | Panic

section \<open>Wire codec (messages.go)\<close>

text \<open>\<^verbatim>\<open>binary.BigEndian\<close>: \<^verbatim>\<open>PutUint16\<close>, \<^verbatim>\<open>PutUint64\<close>, \<^verbatim>\<open>Uint16\<close>, \<^verbatim>\<open>Uint64\<close>, as the Go
  standard library writes them with shifts. The readers index the slice, so they are
  only called on slices that are long enough; the callers below check the bounds where
  Go's slice expressions do.\<close>

definition PutUint16 :: "u16 \<Rightarrow> bytes" where
  "PutUint16 v = [ucast (drop_bit 8 v), ucast v]"

definition Uint16 :: "bytes \<Rightarrow> u16" where
  "Uint16 b = ucast (b ! 1) OR push_bit 8 (ucast (b ! 0))"

definition PutUint64 :: "u64 \<Rightarrow> bytes" where
  "PutUint64 v = [ucast (drop_bit 56 v), ucast (drop_bit 48 v), ucast (drop_bit 40 v),
     ucast (drop_bit 32 v), ucast (drop_bit 24 v), ucast (drop_bit 16 v),
     ucast (drop_bit 8 v), ucast v]"

definition Uint64 :: "bytes \<Rightarrow> u64" where
  "Uint64 b = ucast (b ! 7) OR push_bit 8 (ucast (b ! 6)) OR push_bit 16 (ucast (b ! 5))
     OR push_bit 24 (ucast (b ! 4)) OR push_bit 32 (ucast (b ! 3)) OR push_bit 40 (ucast (b ! 2))
     OR push_bit 48 (ucast (b ! 1)) OR push_bit 56 (ucast (b ! 0))"

type_synonym MessageType = u16

definition MessageTypeUnknown :: MessageType where "MessageTypeUnknown = 0"
definition MessageTypePing :: MessageType where "MessageTypePing = 1"
definition MessageTypeUpdateRequest :: MessageType where "MessageTypeUpdateRequest = 2"
definition MessageTypeUpdateResponse :: MessageType where "MessageTypeUpdateResponse = 3"
definition MessageTypeVersionUpdate :: MessageType where "MessageTypeVersionUpdate = 4"

type_synonym ResponseError = u16

definition ResponseErrorNone :: ResponseError where "ResponseErrorNone = 0"
definition ResponseErrorMismatchedVersion :: ResponseError where "ResponseErrorMismatchedVersion = 1"
definition ResponseErrorWriteFailed :: ResponseError where "ResponseErrorWriteFailed = 2"

text \<open>\<^verbatim>\<open>data[:2]\<close> panics on a slice shorter than two bytes.\<close>

definition GetMessageType :: "bytes \<Rightarrow> MessageType result" where
  "GetMessageType data = (if length data < 2 then Panic else Ok (Uint16 (take 2 data)))"

text \<open>\<^verbatim>\<open>int64(binary.BigEndian.Uint64(data[:8]))\<close>: the signed reading of the eight bytes.\<close>

definition GetMessageLength :: "bytes \<Rightarrow> int result" where
  "GetMessageLength data = (if length data < 8 then Panic else Ok (sint (Uint64 (take 8 data))))"

definition PrependRequestLength :: "bytes \<Rightarrow> bytes" where
  "PrependRequestLength data = PutUint64 (of_nat (length data)) @ data"

record UpdateRequest =
  req_RequestID :: u64
  req_Version :: u64
  req_Data :: bytes

text \<open>\<^verbatim>\<open>binary.Append\<close> cannot fail on the fixed-size integers it is given here, so the
  encoders always return their body with a nil error; the model returns the body.\<close>

definition UpdateRequest_Encode :: "UpdateRequest \<Rightarrow> bytes" where
  "UpdateRequest_Encode r =
     PutUint16 MessageTypeUpdateRequest @ PutUint64 (req_RequestID r) @ PutUint64 (req_Version r)
       @ req_Data r"

definition UpdateRequest_Decode :: "bytes \<Rightarrow> UpdateRequest result" where
  "UpdateRequest_Decode data =
     (case GetMessageType data of
        Panic \<Rightarrow> Panic
      | Err e \<Rightarrow> Err e
      | Ok mt \<Rightarrow>
          if mt \<noteq> MessageTypeUpdateRequest then Err (ErrorNew ''unexpected message type'')
          else let body = drop 2 data in
            if length body < 8 then Panic
            else if length body < 16 then Panic
            else Ok \<lparr>req_RequestID = Uint64 (take 8 body),
                     req_Version = Uint64 (take 8 (drop 8 body)),
                     req_Data = drop 16 body\<rparr>)"

record UpdateResponse =
  res_Error :: ResponseError
  res_RequestID :: u64
  res_Version :: u64
  res_Data :: bytes

definition UpdateResponse_Encode :: "UpdateResponse \<Rightarrow> bytes" where
  "UpdateResponse_Encode r =
     PutUint16 MessageTypeUpdateResponse @ PutUint64 (res_RequestID r) @ PutUint16 (res_Error r)
       @ PutUint64 (res_Version r) @ res_Data r"

definition UpdateResponse_Decode :: "bytes \<Rightarrow> UpdateResponse result" where
  "UpdateResponse_Decode data =
     (case GetMessageType data of
        Panic \<Rightarrow> Panic
      | Err e \<Rightarrow> Err e
      | Ok mt \<Rightarrow>
          if mt \<noteq> MessageTypeUpdateResponse then Err (ErrorNew ''unexpected message type'')
          else let body = drop 2 data in
            if length body < 8 then Panic
            else if length body < 10 then Panic
            else if length body < 18 then Panic
            else Ok \<lparr>res_Error = Uint16 (take 2 (drop 8 body)),
                     res_RequestID = Uint64 (take 8 body),
                     res_Version = Uint64 (take 8 (drop 10 body)),
                     res_Data = drop 18 body\<rparr>)"

record VersionUpdateMessage =
  upd_Version :: u64
  upd_Data :: bytes

definition VersionUpdateMessage_Encode :: "VersionUpdateMessage \<Rightarrow> bytes" where
  "VersionUpdateMessage_Encode m =
     PutUint16 MessageTypeVersionUpdate @ PutUint64 (upd_Version m) @ upd_Data m"

definition VersionUpdateMessage_Decode :: "bytes \<Rightarrow> VersionUpdateMessage result" where
  "VersionUpdateMessage_Decode data =
     (case GetMessageType data of
        Panic \<Rightarrow> Panic
      | Err e \<Rightarrow> Err e
      | Ok mt \<Rightarrow>
          if mt \<noteq> MessageTypeVersionUpdate then Err (ErrorNew ''unexpected message type'')
          else let body = drop 2 data in
            if length body < 8 then Panic
            else Ok \<lparr>upd_Version = Uint64 (take 8 body), upd_Data = drop 8 body\<rparr>)"

section \<open>The datastore interface (leader.go) and the in-memory datastore\<close>

text \<open>
  The Go interface \<^verbatim>\<open>Datastore\<close> is a record of the four methods over the state \<open>'ds\<close> of
  the implementation behind it. Every method returns the state it leaves behind; \<open>Get\<close>
  too, since an implementation may move a file position while it reads.
\<close>

record 'ds Datastore =
  ds_Open :: "'ds \<Rightarrow> error option \<times> 'ds"
  ds_Close :: "'ds \<Rightarrow> error option \<times> 'ds"
  ds_Get :: "'ds \<Rightarrow> (error + u64 \<times> bytes) \<times> 'ds"
  ds_Put :: "u64 \<Rightarrow> bytes \<Rightarrow> 'ds \<Rightarrow> error option \<times> 'ds"

text \<open>Package \<^verbatim>\<open>memory\<close>: the state is the pair of the fields \<^verbatim>\<open>version\<close> and \<^verbatim>\<open>data\<close>.\<close>

definition memory_Datastore :: "(u64 \<times> bytes) Datastore" where
  "memory_Datastore =
     \<lparr>ds_Open = (\<lambda>d. (None, d)),
      ds_Close = (\<lambda>d. (None, d)),
      ds_Get = (\<lambda>d. (Inr (fst d, snd d), d)),
      ds_Put = (\<lambda>version data d. (None, (version, data)))\<rparr>"

definition memory_NewDatastore :: "u64 \<times> bytes" where
  "memory_NewDatastore = (0, [])"

text \<open>
  The mock of the leader tests ("does not update version or data when put fails",
  "returns error when datastore put fails"): \<^verbatim>\<open>Get\<close> returns \<^verbatim>\<open>(version, nil, nil)\<close> and
  \<^verbatim>\<open>Put\<close> returns \<^verbatim>\<open>errors.New("put failed")\<close>. Its state is the version it reports.
\<close>

definition mock_put_fails :: "u64 Datastore" where
  "mock_put_fails =
     \<lparr>ds_Open = (\<lambda>d. (None, d)),
      ds_Close = (\<lambda>d. (None, d)),
      ds_Get = (\<lambda>d. (Inr (d, []), d)),
      ds_Put = (\<lambda>version data d. (Some (ErrorNew ''put failed''), d))\<rparr>"

text \<open>
  The contract every datastore of the repository is written to: what a successful \<open>Put\<close>
  stored is what the next \<open>Get\<close> returns.
\<close>

definition put_get_contract :: "'ds Datastore \<Rightarrow> bool" where
  "put_get_contract dsi =
     (\<forall>version data d d'. ds_Put dsi version data d = (None, d')
        \<longrightarrow> fst (ds_Get dsi d') = Inr (version, data))"

section \<open>Connections\<close>

text \<open>
  A \<^verbatim>\<open>net.Conn\<close> as its writer sees it: the messages written so far, one entry for each
  successful \<^verbatim>\<open>Write\<close>, and whether the connection has been closed. \<^verbatim>\<open>Write\<close> on a closed
  connection fails and writes nothing.
\<close>

record Conn =
  conn_closed :: bool
  conn_written :: "bytes list"

definition Conn_Write :: "Conn \<Rightarrow> bytes \<Rightarrow> error option \<times> Conn" where
  "Conn_Write c msg =
     (if conn_closed c then (Some ErrClosed, c)
      else (None, c\<lparr>conn_written := conn_written c @ [msg]\<rparr>))"

definition Conn_Close :: "Conn \<Rightarrow> error option \<times> Conn" where
  "Conn_Close c = (if conn_closed c then (Some ErrClosed, c) else (None, c\<lparr>conn_closed := True\<rparr>))"

section \<open>Version handles (version.go)\<close>

text \<open>The \<^verbatim>\<open>writer\<close> back-reference of a \<^verbatim>\<open>Version\<close> is the node that made it; the model keeps
  the two values.\<close>

record Version =
  ver_version :: u64
  ver_data :: bytes

definition NewVersion :: "u64 \<Rightarrow> bytes \<Rightarrow> Version" where
  "NewVersion v data = \<lparr>ver_version = v, ver_data = data\<rparr>"

section \<open>File system entries (utils.go)\<close>

text \<open>
  What a path names: nothing, a directory, a regular file with its contents, a bound
  unix socket, or an entry below a directory the process may not search (\<^verbatim>\<open>os.Stat\<close> fails
  with a permission error).
\<close>

datatype entry = NoEntry | Directory | RegularFile bytes | Socket | Forbidden

record FileInfo =
  info_IsDir :: bool
  info_Size :: int

definition os_Stat :: "entry \<Rightarrow> error + FileInfo" where
  "os_Stat e =
     (case e of
        NoEntry \<Rightarrow> Inl (Wrap ''stat'' ErrNotExist)
      | Forbidden \<Rightarrow> Inl (Wrap ''stat'' (ErrorNew ''permission denied''))
      | Directory \<Rightarrow> Inr \<lparr>info_IsDir = True, info_Size = 4096\<rparr>
      | RegularFile content \<Rightarrow> Inr \<lparr>info_IsDir = False, info_Size = int (length content)\<rparr>
      | Socket \<Rightarrow> Inr \<lparr>info_IsDir = False, info_Size = 0\<rparr>)"

definition fileExists :: "entry \<Rightarrow> error + bool" where
  "fileExists path =
     (case os_Stat path of
        Inl err \<Rightarrow> if errors_Is err ErrNotExist then Inr False else Inl err
      | Inr info \<Rightarrow>
          if info_IsDir info then Inl (ErrorNew ''path is a directory'') else Inr True)"

text \<open>\<^verbatim>\<open>net.Listen("unix", socket)\<close> binds only a path that names nothing, and leaves a
  socket there.\<close>

definition net_Listen :: "entry \<Rightarrow> error option \<times> entry" where
  "net_Listen path =
     (case path of
        NoEntry \<Rightarrow> (None, Socket)
      | Forbidden \<Rightarrow> (Some (Wrap ''listen'' (ErrorNew ''permission denied'')), path)
      | _ \<Rightarrow> (Some (Wrap ''listen'' (ErrorNew ''address already in use'')), path))"

section \<open>Leader node (leader.go)\<close>

text \<open>
  \<open>clients\<close> is the Go map from client id to connection, as an association list with
  distinct keys (the order of a Go map iteration is not fixed, and nothing below depends on
  it: every connection is written to on its own). \<open>listener\<close> tells whether the listener
  is bound. A watch channel is the list of the handles sent to it.
\<close>

record 'ds LeaderNode =
  clients :: "(string \<times> Conn) list"
  listener :: bool
  ds :: 'ds
  watchChannels :: "Version list list"

text \<open>
  \<^verbatim>\<open>NewLeaderNode(socket, ds)\<close>, over the entry at the socket path and the state of the
  datastore; both are returned as the call leaves them. The two goroutines it starts act
  only when a connection or a request arrives.
\<close>

definition NewLeaderNode ::
  "'ds Datastore \<Rightarrow> entry \<Rightarrow> 'ds \<Rightarrow> (error + 'ds LeaderNode) \<times> entry \<times> 'ds" where
  "NewLeaderNode dsi socket d =
     (case fileExists socket of
        Inl err \<Rightarrow> (Inl (Wrap ''failed to check if socket exists'' err), socket, d)
      | Inr exists \<Rightarrow>
          if exists then (Inl ErrLeaderAlreadyExists, socket, d)
          else
            (case ds_Open dsi d of
               (Some err, d1) \<Rightarrow> (Inl (Wrap ''failed to open datastore'' err), socket, d1)
             | (None, d1) \<Rightarrow>
                 (case net_Listen socket of
                    (Some err, socket1) \<Rightarrow> (Inl (Wrap ''failed to listen'' err), socket1, d1)
                  | (None, socket1) \<Rightarrow>
                      (Inr \<lparr>clients = [], listener = True, ds = d1, watchChannels = []\<rparr>,
                       socket1, d1))))"

definition Leader_Version :: "'ds Datastore \<Rightarrow> 'ds LeaderNode \<Rightarrow> (error + u64) \<times> 'ds LeaderNode" where
  "Leader_Version dsi n =
     (case ds_Get dsi (ds n) of
        (Inl err, d1) \<Rightarrow> (Inl (Wrap ''failed to get version'' err), n\<lparr>ds := d1\<rparr>)
      | (Inr (v, _), d1) \<Rightarrow> (Inr v, n\<lparr>ds := d1\<rparr>))"

text \<open>The loop of \<^verbatim>\<open>write\<close> over the client map: every connection whose id is not excluded
  is written to, and the error of the write is dropped.\<close>

definition broadcast :: "bytes \<Rightarrow> string list \<Rightarrow> (string \<times> Conn) list \<Rightarrow> (string \<times> Conn) list" where
  "broadcast msg excludeClients cs =
     map (\<lambda>(k, c). if k \<in> set excludeClients then (k, c) else (k, snd (Conn_Write c msg))) cs"

text \<open>The internal \<^verbatim>\<open>write\<close> of the leader (\<open>write\<close> is a keyword of Isabelle, hence the
  prefix). The result is the triple the Go function returns, with the node as the call
  leaves it.\<close>

definition leader_write ::
  "'ds Datastore \<Rightarrow> 'ds LeaderNode \<Rightarrow> u64 \<Rightarrow> bytes \<Rightarrow> string list
     \<Rightarrow> (u64 \<times> bytes \<times> error option) \<times> 'ds LeaderNode" where
  "leader_write dsi n version data excludeClients =
     (case Leader_Version dsi n of
        (Inl err, n1) \<Rightarrow> ((0, [], Some (Wrap ''failed to get version'' err)), n1)
      | (Inr v, n1) \<Rightarrow>
          if version \<noteq> v then ((v, [], Some ErrVersionMismatch), n1)
          else
            let version' = version + 1 in
            (case ds_Put dsi version' data (ds n1) of
               (Some err, d2) \<Rightarrow> ((v, [], Some (Wrap ''failed to put data'' err)), n1\<lparr>ds := d2\<rparr>)
             | (None, d2) \<Rightarrow>
                 let n2 = n1\<lparr>ds := d2\<rparr> in
                 if length (clients n2) > 0 then
                   let update = \<lparr>upd_Version = version', upd_Data = data\<rparr>;
                       body = VersionUpdateMessage_Encode update;
                       msg = PrependRequestLength body
                   in ((version', data, None),
                       n2\<lparr>clients := broadcast msg excludeClients (clients n2)\<rparr>)
                 else ((version', data, None), n2)))"

definition Leader_Write :: "'ds Datastore \<Rightarrow> 'ds LeaderNode \<Rightarrow> u64 \<Rightarrow> bytes \<Rightarrow> error option \<times> 'ds LeaderNode" where
  "Leader_Write dsi n version data =
     (case leader_write dsi n version data [] of ((_, _, err), n') \<Rightarrow> (err, n'))"

text \<open>A sequence of calls of \<^verbatim>\<open>write\<close>, one after the other, with the result of each.\<close>

fun write_seq ::
  "'ds Datastore \<Rightarrow> 'ds LeaderNode \<Rightarrow> (u64 \<times> bytes \<times> string list) list
     \<Rightarrow> (u64 \<times> bytes \<times> error option) list \<times> 'ds LeaderNode" where
  "write_seq dsi n [] = ([], n)"
| "write_seq dsi n ((version, data, excludeClients) # calls) =
     (case leader_write dsi n version data excludeClients of
        (r, n1) \<Rightarrow> (case write_seq dsi n1 calls of (rs, n2) \<Rightarrow> (r # rs, n2)))"

definition accepted :: "u64 \<times> bytes \<times> error option \<Rightarrow> bool" where
  "accepted r = (snd (snd r) = None)"

text \<open>
  \<^verbatim>\<open>handleClientRequest\<close>. \<^verbatim>\<open>n.clients[clientID]\<close> of an id that is not in the map is the nil
  interface value, and the call of \<^verbatim>\<open>Write\<close> on it panics. Each watch channel gets the new
  handle from a goroutine of its own; the model appends it to the channel.
\<close>

definition handleClientRequest ::
  "'ds Datastore \<Rightarrow> 'ds LeaderNode \<Rightarrow> string \<Rightarrow> bytes \<Rightarrow> 'ds LeaderNode result" where
  "handleClientRequest dsi n clientID reqBody =
     (case GetMessageType reqBody of
        Panic \<Rightarrow> Panic
      | Err e \<Rightarrow> Err e
      | Ok requestType \<Rightarrow>
          if requestType = MessageTypeUpdateRequest then
            (case UpdateRequest_Decode reqBody of
               Panic \<Rightarrow> Panic
             | Err e \<Rightarrow> Ok n
             | Ok updateReq \<Rightarrow>
                 (case leader_write dsi n (req_Version updateReq) (req_Data updateReq) [clientID] of
                    ((newVersion, newData, err), n1) \<Rightarrow>
                      let res = \<lparr>res_Error =
                                   (case err of
                                      None \<Rightarrow> ResponseErrorNone
                                    | Some e \<Rightarrow>
                                        if e = ErrVersionMismatch then ResponseErrorMismatchedVersion
                                        else ResponseErrorWriteFailed),
                                 res_RequestID = req_RequestID updateReq,
                                 res_Version = newVersion,
                                 res_Data = newData\<rparr>;
                          msg = PrependRequestLength (UpdateResponse_Encode res)
                      in (case map_of (clients n1) clientID of
                            None \<Rightarrow> Panic
                          | Some c \<Rightarrow>
                              let v = NewVersion newVersion newData in
                              Ok (n1\<lparr>clients :=
                                        map (\<lambda>(k, c'). if k = clientID then (k, snd (Conn_Write c' msg))
                                                        else (k, c')) (clients n1),
                                      watchChannels := map (\<lambda>ch. ch @ [v]) (watchChannels n1)\<rparr>))))
          else Ok n)"

section \<open>Follower node (follower.go)\<close>

text \<open>
  \<open>requests\<close> is the Go map from request id to response channel; a channel is the list
  of the responses delivered to it. \<open>server\<close> is the connection to the leader.
\<close>

record 'ds FollowerNode =
  fol_ds :: 'ds
  server :: Conn
  requests :: "u64 \<Rightarrow> UpdateResponse list option"
  nextRequestID :: u64
  ready :: bool
  readyChan_closed :: bool
  fol_watchChannels :: "Version list list"

definition Follower_Version :: "'ds Datastore \<Rightarrow> 'ds FollowerNode \<Rightarrow> (error + u64) \<times> 'ds FollowerNode" where
  "Follower_Version dsi n =
     (case ds_Get dsi (fol_ds n) of
        (Inl err, d1) \<Rightarrow> (Inl (Wrap ''failed to get version'' err), n\<lparr>fol_ds := d1\<rparr>)
      | (Inr (v, _), d1) \<Rightarrow> (Inr v, n\<lparr>fol_ds := d1\<rparr>))"

text \<open>
  \<^verbatim>\<open>handleMessage\<close>, run by the reader goroutine for each frame body. A response whose
  request id has no channel in \<open>requests\<close> is dropped.
\<close>

definition handleMessage :: "'ds Datastore \<Rightarrow> 'ds FollowerNode \<Rightarrow> bytes \<Rightarrow> 'ds FollowerNode result" where
  "handleMessage dsi n body =
     (case GetMessageType body of
        Panic \<Rightarrow> Panic
      | Err e \<Rightarrow> Err e
      | Ok mt \<Rightarrow>
          if mt = MessageTypeUpdateResponse then
            (case UpdateResponse_Decode body of
               Panic \<Rightarrow> Panic
             | Err e \<Rightarrow> Ok n
             | Ok res \<Rightarrow>
                 (case requests n (res_RequestID res) of
                    Some ch \<Rightarrow> Ok (n\<lparr>requests := (requests n)(res_RequestID res \<mapsto> ch @ [res])\<rparr>)
                  | None \<Rightarrow> Ok n))
          else if mt = MessageTypeVersionUpdate then
            (case VersionUpdateMessage_Decode body of
               Panic \<Rightarrow> Panic
             | Err e \<Rightarrow> Ok n
             | Ok msg \<Rightarrow>
                 (case ds_Put dsi (upd_Version msg) (upd_Data msg) (fol_ds n) of
                    (Some err, d1) \<Rightarrow> Ok (n\<lparr>fol_ds := d1\<rparr>)
                  | (None, d1) \<Rightarrow>
                      let n1 = n\<lparr>fol_ds := d1\<rparr> in
                      if \<not> ready n1 then Ok (n1\<lparr>ready := True, readyChan_closed := True\<rparr>)
                      else
                        let v = NewVersion (upd_Version msg) (upd_Data msg) in
                        Ok (n1\<lparr>fol_watchChannels := map (\<lambda>ch. ch @ [v]) (fol_watchChannels n1)\<rparr>)))
          else Ok n)"

text \<open>
  \<^verbatim>\<open>FollowerNode.Write\<close> in the three stretches between which the reader goroutine can
  run. \<open>Write_send\<close> is the function up to and including \<^verbatim>\<open>n.server.Write(req)\<close>: the
  version check, the encoding of the request under the id \<open>nextRequestID\<close>, and the write
  to the leader. \<open>Write_register\<close> is the three statements after it: the channel is made,
  stored in \<open>requests\<close> under \<open>nextRequestID\<close>, and the counter advances; it returns the id
  whose channel \<open>Write\<close> then waits on. \<open>Write_receive\<close> is the \<^verbatim>\<open>switch\<close> on the response
  taken from the channel.
\<close>

definition Write_send ::
  "'ds Datastore \<Rightarrow> 'ds FollowerNode \<Rightarrow> u64 \<Rightarrow> bytes \<Rightarrow> error option \<times> 'ds FollowerNode" where
  "Write_send dsi n version data =
     (case Follower_Version dsi n of
        (Inl err, n1) \<Rightarrow> (Some (Wrap ''failed to get version'' err), n1)
      | (Inr v, n1) \<Rightarrow>
          if version \<noteq> v then (Some ErrVersionMismatch, n1)
          else
            let ur = \<lparr>req_RequestID = nextRequestID n1, req_Version = version, req_Data = data\<rparr>;
                body = UpdateRequest_Encode ur;
                req = PrependRequestLength body
            in (case Conn_Write (server n1) req of
                  (Some err, c) \<Rightarrow> (Some (Wrap ''failed to write to server'' err), n1\<lparr>server := c\<rparr>)
                | (None, c) \<Rightarrow> (None, n1\<lparr>server := c\<rparr>)))"

definition Write_register :: "'ds FollowerNode \<Rightarrow> u64 \<times> 'ds FollowerNode" where
  "Write_register n =
     (nextRequestID n,
      n\<lparr>requests := (requests n)(nextRequestID n \<mapsto> []), nextRequestID := nextRequestID n + 1\<rparr>)"

definition Write_receive ::
  "'ds Datastore \<Rightarrow> 'ds FollowerNode \<Rightarrow> bytes \<Rightarrow> UpdateResponse \<Rightarrow> error option \<times> 'ds FollowerNode" where
  "Write_receive dsi n data res =
     (if res_Error res = ResponseErrorNone then
        (case ds_Put dsi (res_Version res) data (fol_ds n) of (err, d1) \<Rightarrow> (err, n\<lparr>fol_ds := d1\<rparr>))
      else if res_Error res = ResponseErrorMismatchedVersion then (Some ErrVersionMismatch, n)
      else if res_Error res = ResponseErrorWriteFailed then (Some ErrLeaderFailedToWrite, n)
      else (Some (ErrorNew ''unknown error''), n))"

text \<open>
  The whole call. \<open>arrival\<close> is what the channel of the request yields: the response the
  reader goroutine delivered, or nothing, and then the call never returns.
\<close>

datatype write_outcome = Returned "error option" | Blocked

definition Follower_Write ::
  "'ds Datastore \<Rightarrow> 'ds FollowerNode \<Rightarrow> u64 \<Rightarrow> bytes \<Rightarrow> UpdateResponse option
     \<Rightarrow> write_outcome \<times> 'ds FollowerNode" where
  "Follower_Write dsi n version data arrival =
     (case Write_send dsi n version data of
        (Some err, n1) \<Rightarrow> (Returned (Some err), n1)
      | (None, n1) \<Rightarrow>
          (case Write_register n1 of
             (rid, n2) \<Rightarrow>
               (case arrival of
                  None \<Rightarrow> (Blocked, n2)
                | Some res \<Rightarrow>
                    (case Write_receive dsi n2 data res of (err, n3) \<Rightarrow> (Returned err, n3)))))"

section \<open>Append-only log datastore (appendonly/datastore.go)\<close>

text \<open>
  An open \<^verbatim>\<open>*os.File\<close> is its read/write position; the contents are those of the entry the
  path names. \<^verbatim>\<open>Seek\<close> to a negative offset fails and leaves the position where it was;
  \<^verbatim>\<open>Read\<close> returns the bytes there are, up to the length of the buffer, \<^verbatim>\<open>io.EOF\<close> when a
  non-empty buffer gets none, and \<^verbatim>\<open>(0, nil)\<close> for an empty buffer; \<^verbatim>\<open>Write\<close> past the end
  fills the gap with zero bytes, and a write of no bytes leaves the file as it is. The disk
  never fails: the only errors of the operating system in the model are the ones the
  entry at the path decides.
\<close>

type_synonym File = nat

definition file_content :: "entry \<Rightarrow> bytes" where
  "file_content e = (case e of RegularFile c \<Rightarrow> c | _ \<Rightarrow> [])"

definition os_OpenFile :: "entry \<Rightarrow> (error + File) \<times> entry" where
  "os_OpenFile e =
     (case e of
        NoEntry \<Rightarrow> (Inr 0, RegularFile [])
      | RegularFile c \<Rightarrow> (Inr 0, e)
      | Directory \<Rightarrow> (Inl (Wrap ''open'' (ErrorNew ''is a directory'')), e)
      | Socket \<Rightarrow> (Inl (Wrap ''open'' (ErrorNew ''no such device or address'')), e)
      | Forbidden \<Rightarrow> (Inl (Wrap ''open'' (ErrorNew ''permission denied'')), e))"

definition File_Seek :: "File \<Rightarrow> int \<Rightarrow> error option \<times> File" where
  "File_Seek f off = (if off < 0 then (Some (ErrorNew ''invalid argument''), f) else (None, nat off))"

definition File_Read :: "File \<Rightarrow> entry \<Rightarrow> nat \<Rightarrow> (bytes \<times> nat \<times> error option) \<times> File" where
  "File_Read f e len =
     (let avail = take len (drop f (file_content e)) in
      if len = 0 then (([], 0, None), f)
      else if avail = [] then ((replicate len 0, 0, Some EOF), f)
      else ((avail @ replicate (len - length avail) 0, length avail, None), f + length avail))"

definition write_at :: "nat \<Rightarrow> bytes \<Rightarrow> bytes \<Rightarrow> bytes" where
  "write_at pos b c = take pos (c @ replicate (pos - length c) 0) @ b @ drop (pos + length b) c"

definition File_Write :: "File \<Rightarrow> entry \<Rightarrow> bytes \<Rightarrow> (nat \<times> error option) \<times> File \<times> entry" where
  "File_Write f e b =
     (if b = [] then ((0, None), f, e)
      else ((length b, None), f + length b, RegularFile (write_at f b (file_content e))))"

definition File_Close :: "File \<Rightarrow> error option" where
  "File_Close f = None"

record appendonly_Datastore =
  fp :: string
  aof_file :: "File option"
  fileVersion :: u16
  offset :: u64
  nextOffset :: u64

definition FileVersionHeaderFieldSize :: nat where "FileVersionHeaderFieldSize = 2"
definition OffsetHeaderFieldSize :: nat where "OffsetHeaderFieldSize = 8"
definition NextOffsetHeaderFieldSize :: nat where "NextOffsetHeaderFieldSize = 8"
definition VersionHeaderFieldSize :: nat where "VersionHeaderFieldSize = 8"

definition FileVersionHeaderPos :: nat where "FileVersionHeaderPos = 0"
definition OffsetHeaderPos :: nat where
  "OffsetHeaderPos = FileVersionHeaderPos + FileVersionHeaderFieldSize"
definition NextOffsetHeaderPos :: nat where
  "NextOffsetHeaderPos = OffsetHeaderPos + OffsetHeaderFieldSize"
definition VersionHeaderPos :: nat where
  "VersionHeaderPos = NextOffsetHeaderPos + NextOffsetHeaderFieldSize"

definition NewDatastore :: "string \<Rightarrow> appendonly_Datastore" where
  "NewDatastore path = \<lparr>fp = path, aof_file = None, fileVersion = 1, offset = 0, nextOffset = 0\<rparr>"

text \<open>\<^verbatim>\<open>headerOffset\<close> returns an \<^verbatim>\<open>int64\<close>; the sums it enters are 64-bit sums.\<close>

definition headerOffset :: u64 where
  "headerOffset = of_nat (FileVersionHeaderFieldSize + OffsetHeaderFieldSize
                            + NextOffsetHeaderFieldSize + VersionHeaderFieldSize)"

text \<open>
  The four header readers: seek to the field, read it into a zeroed buffer, and return 0
  with no error at the end of the file. Each returns the value and the error as the Go
  function does, with the datastore (the position of its file has moved).
\<close>

definition readFileVersionHeader ::
  "appendonly_Datastore \<Rightarrow> entry \<Rightarrow> (u16 \<times> error option) \<times> appendonly_Datastore" where
  "readFileVersionHeader aof e =
     (case aof_file aof of
        None \<Rightarrow> ((0, Some ErrFileNotOpen), aof)
      | Some f \<Rightarrow>
          (case File_Seek f (int FileVersionHeaderPos) of
             (_, f1) \<Rightarrow>
               (case File_Read f1 e FileVersionHeaderFieldSize of
                  ((bb, _, Some err), f2) \<Rightarrow>
                    if errors_Is err EOF then ((0, None), aof\<lparr>aof_file := Some f2\<rparr>)
                    else ((0, Some (Wrap ''failed to read file version'' err)), aof\<lparr>aof_file := Some f2\<rparr>)
                | ((bb, _, None), f2) \<Rightarrow> ((Uint16 bb, None), aof\<lparr>aof_file := Some f2\<rparr>))))"

definition readOffsetHeader ::
  "appendonly_Datastore \<Rightarrow> entry \<Rightarrow> (u64 \<times> error option) \<times> appendonly_Datastore" where
  "readOffsetHeader aof e =
     (case aof_file aof of
        None \<Rightarrow> ((0, Some ErrFileNotOpen), aof)
      | Some f \<Rightarrow>
          (case File_Seek f (int OffsetHeaderPos) of
             (_, f1) \<Rightarrow>
               (case File_Read f1 e OffsetHeaderFieldSize of
                  ((bb, _, Some err), f2) \<Rightarrow>
                    if errors_Is err EOF then ((0, None), aof\<lparr>aof_file := Some f2\<rparr>)
                    else ((0, Some (Wrap ''failed to read offset'' err)), aof\<lparr>aof_file := Some f2\<rparr>)
                | ((bb, _, None), f2) \<Rightarrow> ((Uint64 bb, None), aof\<lparr>aof_file := Some f2\<rparr>))))"

definition readNextOffsetHeader ::
  "appendonly_Datastore \<Rightarrow> entry \<Rightarrow> (u64 \<times> error option) \<times> appendonly_Datastore" where
  "readNextOffsetHeader aof e =
     (case aof_file aof of
        None \<Rightarrow> ((0, Some ErrFileNotOpen), aof)
      | Some f \<Rightarrow>
          (case File_Seek f (int NextOffsetHeaderPos) of
             (_, f1) \<Rightarrow>
               (case File_Read f1 e NextOffsetHeaderFieldSize of
                  ((bb, _, Some err), f2) \<Rightarrow>
                    if errors_Is err EOF then ((0, None), aof\<lparr>aof_file := Some f2\<rparr>)
                    else ((0, Some (Wrap ''failed to read next offset'' err)), aof\<lparr>aof_file := Some f2\<rparr>)
                | ((bb, _, None), f2) \<Rightarrow> ((Uint64 bb, None), aof\<lparr>aof_file := Some f2\<rparr>))))"

definition readVersionHeader ::
  "appendonly_Datastore \<Rightarrow> entry \<Rightarrow> (u64 \<times> error option) \<times> appendonly_Datastore" where
  "readVersionHeader aof e =
     (case aof_file aof of
        None \<Rightarrow> ((0, Some ErrFileNotOpen), aof)
      | Some f \<Rightarrow>
          (case File_Seek f (int VersionHeaderPos) of
             (_, f1) \<Rightarrow>
               (case File_Read f1 e VersionHeaderFieldSize of
                  ((bb, _, Some err), f2) \<Rightarrow>
                    if errors_Is err EOF then ((0, None), aof\<lparr>aof_file := Some f2\<rparr>)
                    else ((0, Some (Wrap ''failed to read version'' err)), aof\<lparr>aof_file := Some f2\<rparr>)
                | ((bb, _, None), f2) \<Rightarrow> ((Uint64 bb, None), aof\<lparr>aof_file := Some f2\<rparr>))))"

text \<open>
  \<^verbatim>\<open>Open\<close>, over the datastore and the entry at its path. The file is stored in the
  datastore before the header is checked, so a file that fails a check stays open. A header
  field is assigned also when its reader fails. \<^verbatim>\<open>int64(aof.offset)\<close> is the signed reading
  of the offset.
\<close>

definition appendonly_Open ::
  "appendonly_Datastore \<Rightarrow> entry \<Rightarrow> error option \<times> appendonly_Datastore \<times> entry" where
  "appendonly_Open aof e =
     (if aof_file aof \<noteq> None then (None, aof, e)
      else
        (case os_OpenFile e of
           (Inl err, e1) \<Rightarrow> (Some (Wrap ''failed to open file'' err), aof, e1)
         | (Inr f, e1) \<Rightarrow>
             (case os_Stat e1 of
                Inl err \<Rightarrow> (Some (Wrap ''failed to get file stats'' err), aof, e1)
              | Inr info \<Rightarrow>
                  let aof1 = aof\<lparr>aof_file := Some f\<rparr> in
                  if info_Size info = 0 then (None, aof1, e1)
                  else
                    (case readFileVersionHeader aof1 e1 of
                       ((_, Some err), aof2) \<Rightarrow> (Some err, aof2, e1)
                     | ((fv, None), aof2) \<Rightarrow>
                         if fv \<noteq> fileVersion aof2 then (Some ErrUnexpectedFileVersion, aof2, e1)
                         else
                           (case readOffsetHeader aof2 e1 of
                              ((off, Some err), aof3) \<Rightarrow> (Some err, aof3\<lparr>offset := off\<rparr>, e1)
                            | ((off, None), aof3) \<Rightarrow>
                                (case readNextOffsetHeader (aof3\<lparr>offset := off\<rparr>) e1 of
                                   ((nxt, Some err), aof4) \<Rightarrow> (Some err, aof4\<lparr>nextOffset := nxt\<rparr>, e1)
                                 | ((nxt, None), aof4) \<Rightarrow>
                                     let aof5 = aof4\<lparr>nextOffset := nxt\<rparr> in
                                     if offset aof5 > nextOffset aof5
                                     then (Some ErrNextOffsetOutOfRange, aof5, e1)
                                     else if sint (offset aof5) > info_Size info
                                     then (Some ErrOffsetOutOfRange, aof5, e1)
                                     else (None, aof5, e1)))))))"

definition appendonly_Close ::
  "appendonly_Datastore \<Rightarrow> entry \<Rightarrow> error option \<times> appendonly_Datastore \<times> entry" where
  "appendonly_Close aof e =
     (case aof_file aof of
        None \<Rightarrow> (None, aof, e)
      | Some f \<Rightarrow>
          (case File_Close f of
             Some err \<Rightarrow> (Some (Wrap ''failed to close file'' err), aof, e)
           | None \<Rightarrow> (None, aof\<lparr>aof_file := None\<rparr>, e)))"

text \<open>
  \<^verbatim>\<open>Get\<close>. \<^verbatim>\<open>int(aof.nextOffset) - int(aof.offset)\<close> is a 64-bit signed difference, and
  \<^verbatim>\<open>make([]byte, length)\<close> panics when it is negative (memory has no bound in the model, so
  no other length makes it panic). The error of \<^verbatim>\<open>Seek\<close> is dropped, here and in \<^verbatim>\<open>Put\<close>.
\<close>

definition appendonly_Get ::
  "appendonly_Datastore \<Rightarrow> entry \<Rightarrow> (u64 \<times> bytes) result \<times> appendonly_Datastore \<times> entry" where
  "appendonly_Get aof e =
     (if aof_file aof = None then (Err ErrFileNotOpen, aof, e)
      else
        let len = sint (nextOffset aof - offset aof) in
        if len < 0 then (Panic, aof, e)
        else
          (case readVersionHeader aof e of
             ((_, Some err), aof1) \<Rightarrow> (Err err, aof1, e)
           | ((version, None), aof1) \<Rightarrow>
               (case aof_file aof1 of
                  None \<Rightarrow> (Panic, aof1, e)
                | Some f \<Rightarrow>
                    (case File_Seek f (sint (headerOffset + offset aof1)) of
                       (_, f1) \<Rightarrow>
                         (case File_Read f1 e (nat len) of
                            ((data, n, Some err), f2) \<Rightarrow>
                              (Err (Wrap ''failed to read data'' err), aof1\<lparr>aof_file := Some f2\<rparr>, e)
                          | ((data, n, None), f2) \<Rightarrow>
                              if int n \<noteq> len
                              then (Err (ErrorNew ''failed to read data: short read''),
                                    aof1\<lparr>aof_file := Some f2\<rparr>, e)
                              else (Ok (version, data), aof1\<lparr>aof_file := Some f2\<rparr>, e))))))"

definition writeHeaders ::
  "appendonly_Datastore \<Rightarrow> entry \<Rightarrow> u64 \<Rightarrow> error option \<times> appendonly_Datastore \<times> entry" where
  "writeHeaders aof e version =
     (case aof_file aof of
        None \<Rightarrow> (Some ErrFileNotOpen, aof, e)
      | Some f \<Rightarrow>
          let headerBytes = PutUint16 (fileVersion aof) @ PutUint64 (offset aof)
                              @ PutUint64 (nextOffset aof) @ PutUint64 version
          in (case File_Seek f 0 of
                (_, f1) \<Rightarrow>
                  (case File_Write f1 e headerBytes of
                     ((_, Some err), f2, e1) \<Rightarrow>
                       (Some (Wrap ''failed to write headers'' err), aof\<lparr>aof_file := Some f2\<rparr>, e1)
                   | ((_, None), f2, e1) \<Rightarrow> (None, aof\<lparr>aof_file := Some f2\<rparr>, e1))))"

definition appendonly_Put ::
  "u64 \<Rightarrow> bytes \<Rightarrow> appendonly_Datastore \<Rightarrow> entry \<Rightarrow> error option \<times> appendonly_Datastore \<times> entry" where
  "appendonly_Put version data aof e =
     (case aof_file aof of
        None \<Rightarrow> (Some ErrFileNotOpen, aof, e)
      | Some f \<Rightarrow>
          (case File_Seek f (sint (headerOffset + nextOffset aof)) of
             (_, f1) \<Rightarrow>
               (case File_Write f1 e data of
                  ((n, Some err), f2, e1) \<Rightarrow>
                    (Some (Wrap ''failed to write data'' err), aof\<lparr>aof_file := Some f2\<rparr>, e1)
                | ((n, None), f2, e1) \<Rightarrow>
                    if n \<noteq> length data
                    then (Some (ErrorNew ''failed to write data: short write''),
                          aof\<lparr>aof_file := Some f2\<rparr>, e1)
                    else
                      let aof1 = aof\<lparr>aof_file := Some f2, offset := nextOffset aof,
                                     nextOffset := nextOffset aof + of_nat (length data)\<rparr>
                      in writeHeaders aof1 e1 version)))"

section \<open>Example states\<close>

text \<open>Concrete nodes and connections, for the instances of the theorems below.\<close>

definition example_conn :: Conn where
  "example_conn = \<lparr>conn_closed = False, conn_written = []\<rparr>"

definition example_leader :: "(u64 \<times> bytes) LeaderNode" where
  "example_leader =
     \<lparr>clients = [(''a'', example_conn), (''b'', example_conn)], listener = True,
      ds = memory_NewDatastore, watchChannels = [[]]\<rparr>"

definition example_mock_leader :: "u64 LeaderNode" where
  "example_mock_leader = \<lparr>clients = [], listener = True, ds = 1, watchChannels = []\<rparr>"

definition example_request :: UpdateRequest where
  "example_request = \<lparr>req_RequestID = 5, req_Version = 0, req_Data = [97]\<rparr>"

definition example_follower :: "(u64 \<times> bytes) FollowerNode" where
  "example_follower =
     \<lparr>fol_ds = (1, [116, 101, 115, 116]), server = example_conn, requests = (\<lambda>_. None),
      nextRequestID = 1, ready = True, readyChan_closed = True, fol_watchChannels = []\<rparr>"

definition example_mock_follower :: "u64 FollowerNode" where
  "example_mock_follower =
     \<lparr>fol_ds = 1, server = example_conn, requests = (\<lambda>_. None),
      nextRequestID = 1, ready = True, readyChan_closed = True, fol_watchChannels = []\<rparr>"

definition example_response :: "ResponseError \<Rightarrow> UpdateResponse" where
  "example_response code =
     \<lparr>res_Error = code, res_RequestID = 1, res_Version = 2, res_Data = [110, 101, 119]\<rparr>"

definition example_store :: appendonly_Datastore where
  "example_store = NewDatastore ''store''"

definition torn_header :: bytes where
  "torn_header = [0, 1,  128, 0, 0, 0, 0, 0, 0, 0,  128, 0, 0, 0, 0, 0, 0, 0,
                  0, 0, 0, 0, 0, 0, 0, 7]"

section \<open>Big-endian integers\<close>

lemma take_bit_byte_step:
  "take_bit (k + 8) (v::64 word) = take_bit k v OR push_bit k (ucast (ucast (drop_bit k v) :: byte))"
  by (rule bit_word_eqI) (auto simp: bit_simps)

lemma u64_bytes_join:
  "(v::64 word) = ucast (ucast v :: byte) OR push_bit 8 (ucast (ucast (drop_bit 8 v) :: byte))
     OR push_bit 16 (ucast (ucast (drop_bit 16 v) :: byte))
     OR push_bit 24 (ucast (ucast (drop_bit 24 v) :: byte))
     OR push_bit 32 (ucast (ucast (drop_bit 32 v) :: byte))
     OR push_bit 40 (ucast (ucast (drop_bit 40 v) :: byte))
     OR push_bit 48 (ucast (ucast (drop_bit 48 v) :: byte))
     OR push_bit 56 (ucast (ucast (drop_bit 56 v) :: byte))"
proof -
  have "v = take_bit (56 + 8) v" by (simp add: take_bit_word_eq_self)
  also have "\<dots> = take_bit (48 + 8) v OR push_bit 56 (ucast (ucast (drop_bit 56 v) :: byte))"
    using take_bit_byte_step [of 56 v] by simp
  also have "take_bit (48 + 8) v = take_bit (40 + 8) v OR push_bit 48 (ucast (ucast (drop_bit 48 v) :: byte))"
    using take_bit_byte_step [of 48 v] by simp
  also have "take_bit (40 + 8) v = take_bit (32 + 8) v OR push_bit 40 (ucast (ucast (drop_bit 40 v) :: byte))"
    using take_bit_byte_step [of 40 v] by simp
  also have "take_bit (32 + 8) v = take_bit (24 + 8) v OR push_bit 32 (ucast (ucast (drop_bit 32 v) :: byte))"
    using take_bit_byte_step [of 32 v] by simp
  also have "take_bit (24 + 8) v = take_bit (16 + 8) v OR push_bit 24 (ucast (ucast (drop_bit 24 v) :: byte))"
    using take_bit_byte_step [of 24 v] by simp
  also have "take_bit (16 + 8) v = take_bit (8 + 8) v OR push_bit 16 (ucast (ucast (drop_bit 16 v) :: byte))"
    using take_bit_byte_step [of 16 v] by simp
  also have "take_bit (8 + 8) v = take_bit (0 + 8) v OR push_bit 8 (ucast (ucast (drop_bit 8 v) :: byte))"
    using take_bit_byte_step [of 8 v] by simp
  also have "take_bit (0 + 8) v = ucast (ucast v :: byte)"
    using take_bit_byte_step [of 0 v] by simp
  finally show ?thesis by (simp only: or.assoc)
qed

lemma length_PutUint16 [simp]: "length (PutUint16 v) = 2"
  by (simp add: PutUint16_def)

lemma length_PutUint64 [simp]: "length (PutUint64 v) = 8"
  by (simp add: PutUint64_def)

lemma Uint16_PutUint16 [simp]: "Uint16 (PutUint16 v) = v"
  unfolding Uint16_def PutUint16_def
  by (rule bit_word_eqI) (auto simp add: bit_simps)

lemma Uint64_PutUint64 [simp]: "Uint64 (PutUint64 v) = v"
  unfolding Uint64_def PutUint64_def
  using u64_bytes_join [of v] by simp

lemma sint_of_nat_small: "n < 2 ^ 63 \<Longrightarrow> sint (of_nat n :: u64) = int n"
  by (simp add: signed_of_nat signed_take_bit_int_eq_self)

section \<open>The codec\<close>

text \<open>Framing: the length prefix of a frame gives the length of its body back, and the
  body follows the eight bytes of the prefix.\<close>

lemma frame_length:
  "length body < 2 ^ 63 \<Longrightarrow>
   GetMessageLength (PrependRequestLength body) = Ok (int (length body))
   \<and> drop 8 (PrependRequestLength body) = body"
  by (simp add: GetMessageLength_def PrependRequestLength_def sint_of_nat_small)

lemma GetMessageType_tagged [simp]: "GetMessageType (PutUint16 t @ rest) = Ok t"
  by (simp add: GetMessageType_def)

lemma UpdateRequest_roundtrip: "UpdateRequest_Decode (UpdateRequest_Encode r) = Ok r"
  by (simp add: UpdateRequest_Decode_def UpdateRequest_Encode_def)

lemma UpdateResponse_roundtrip: "UpdateResponse_Decode (UpdateResponse_Encode r) = Ok r"
  by (simp add: UpdateResponse_Decode_def UpdateResponse_Encode_def)

lemma VersionUpdateMessage_roundtrip:
  "VersionUpdateMessage_Decode (VersionUpdateMessage_Encode m) = Ok m"
  by (simp add: VersionUpdateMessage_Decode_def VersionUpdateMessage_Encode_def)

text \<open>
  C2. For every message of each of the three kinds, decoding what \<open>Encode\<close> produced gives
  the message back, and the encoded body is the 2-byte big-endian type tag (2 for an
  update request, 3 for an update response, 4 for a version update), then the big-endian
  fixed fields in the order of the taxonomy table, then the data bytes up to the end.
\<close>

theorem codec_roundtrip:
  "UpdateRequest_Decode (UpdateRequest_Encode r) = Ok r
   \<and> UpdateRequest_Encode r
       = PutUint16 2 @ PutUint64 (req_RequestID r) @ PutUint64 (req_Version r) @ req_Data r
   \<and> UpdateResponse_Decode (UpdateResponse_Encode s) = Ok s
   \<and> UpdateResponse_Encode s
       = PutUint16 3 @ PutUint64 (res_RequestID s) @ PutUint16 (res_Error s)
           @ PutUint64 (res_Version s) @ res_Data s
   \<and> VersionUpdateMessage_Decode (VersionUpdateMessage_Encode m) = Ok m
   \<and> VersionUpdateMessage_Encode m = PutUint16 4 @ PutUint64 (upd_Version m) @ upd_Data m"
proof -
  have "UpdateRequest_Encode r
       = PutUint16 2 @ PutUint64 (req_RequestID r) @ PutUint64 (req_Version r) @ req_Data r"
    by (simp add: UpdateRequest_Encode_def MessageTypeUpdateRequest_def)
  moreover have "UpdateResponse_Encode s
       = PutUint16 3 @ PutUint64 (res_RequestID s) @ PutUint16 (res_Error s)
           @ PutUint64 (res_Version s) @ res_Data s"
    by (simp add: UpdateResponse_Encode_def MessageTypeUpdateResponse_def)
  moreover have "VersionUpdateMessage_Encode m = PutUint16 4 @ PutUint64 (upd_Version m) @ upd_Data m"
    by (simp add: VersionUpdateMessage_Encode_def MessageTypeVersionUpdate_def)
  ultimately show ?thesis
    using UpdateRequest_roundtrip [of r] UpdateResponse_roundtrip [of s]
      VersionUpdateMessage_roundtrip [of m]
    by (simp only: simp_thms)
qed

text \<open>Cutting an encoded message short inside its data, or right behind its fixed fields,
  gives the encoding of the same message with shorter data.\<close>

lemma take_UpdateRequest_Encode:
  "18 \<le> k \<Longrightarrow> take k (UpdateRequest_Encode r)
     = UpdateRequest_Encode (r\<lparr>req_Data := take (k - 18) (req_Data r)\<rparr>)"
  by (simp add: UpdateRequest_Encode_def)

lemma take_UpdateResponse_Encode:
  "20 \<le> k \<Longrightarrow> take k (UpdateResponse_Encode s)
     = UpdateResponse_Encode (s\<lparr>res_Data := take (k - 20) (res_Data s)\<rparr>)"
  by (simp add: UpdateResponse_Encode_def)

lemma take_VersionUpdateMessage_Encode:
  "10 \<le> k \<Longrightarrow> take k (VersionUpdateMessage_Encode m)
     = VersionUpdateMessage_Encode (m\<lparr>upd_Data := take (k - 10) (upd_Data m)\<rparr>)"
  by (simp add: VersionUpdateMessage_Encode_def)

text \<open>A body too short for the fixed fields makes the slice expressions of the decoder
  panic: the decoders have no length check of their own.\<close>

lemma UpdateRequest_Decode_short:
  "length b < 18 \<Longrightarrow> UpdateRequest_Decode b = Panic \<or> (\<exists>e. UpdateRequest_Decode b = Err e)"
  by (auto simp: UpdateRequest_Decode_def GetMessageType_def Let_def)

lemma UpdateRequest_Decode_short_tagged:
  "k < 18 \<Longrightarrow> UpdateRequest_Decode (take k (UpdateRequest_Encode r)) = Panic"
  by (cases "k < 2")
    (auto simp: UpdateRequest_Decode_def GetMessageType_def UpdateRequest_Encode_def
      PutUint16_def min_def Uint16_def MessageTypeUpdateRequest_def take_Cons' Let_def)

lemma UpdateRequest_Decode_mistagged:
  "2 \<le> length b \<Longrightarrow> GetMessageType b \<noteq> Ok MessageTypeUpdateRequest
     \<Longrightarrow> UpdateRequest_Decode b = Err (ErrorNew ''unexpected message type'')"
  by (auto simp: UpdateRequest_Decode_def GetMessageType_def)

lemma UpdateResponse_Decode_mistagged:
  "2 \<le> length b \<Longrightarrow> GetMessageType b \<noteq> Ok MessageTypeUpdateResponse
     \<Longrightarrow> UpdateResponse_Decode b = Err (ErrorNew ''unexpected message type'')"
  by (auto simp: UpdateResponse_Decode_def GetMessageType_def)

lemma VersionUpdateMessage_Decode_mistagged:
  "2 \<le> length b \<Longrightarrow> GetMessageType b \<noteq> Ok MessageTypeVersionUpdate
     \<Longrightarrow> VersionUpdateMessage_Decode b = Err (ErrorNew ''unexpected message type'')"
  by (auto simp: VersionUpdateMessage_Decode_def GetMessageType_def)

text \<open>
  C8, as the code has it. A truncation of an encoded message that keeps the tag and the
  fixed fields is not rejected: the matching decoder returns the message with its data cut
  short. A body of at least two bytes whose type tag is not the one of the decoder is
  rejected with an error.
\<close>

theorem decode_truncated_or_mistagged:
  "(18 \<le> k \<longrightarrow> UpdateRequest_Decode (take k (UpdateRequest_Encode r))
        = Ok (r\<lparr>req_Data := take (k - 18) (req_Data r)\<rparr>))
   \<and> (20 \<le> k \<longrightarrow> UpdateResponse_Decode (take k (UpdateResponse_Encode s))
        = Ok (s\<lparr>res_Data := take (k - 20) (res_Data s)\<rparr>))
   \<and> (10 \<le> k \<longrightarrow> VersionUpdateMessage_Decode (take k (VersionUpdateMessage_Encode m))
        = Ok (m\<lparr>upd_Data := take (k - 10) (upd_Data m)\<rparr>))
   \<and> (2 \<le> length b \<and> GetMessageType b \<noteq> Ok MessageTypeUpdateRequest
        \<longrightarrow> UpdateRequest_Decode b = Err (ErrorNew ''unexpected message type''))
   \<and> (2 \<le> length b \<and> GetMessageType b \<noteq> Ok MessageTypeUpdateResponse
        \<longrightarrow> UpdateResponse_Decode b = Err (ErrorNew ''unexpected message type''))
   \<and> (2 \<le> length b \<and> GetMessageType b \<noteq> Ok MessageTypeVersionUpdate
        \<longrightarrow> VersionUpdateMessage_Decode b = Err (ErrorNew ''unexpected message type''))"
  by (simp add: take_UpdateRequest_Encode take_UpdateResponse_Encode
      take_VersionUpdateMessage_Encode UpdateRequest_roundtrip UpdateResponse_roundtrip
      VersionUpdateMessage_roundtrip UpdateRequest_Decode_mistagged
      UpdateResponse_Decode_mistagged VersionUpdateMessage_Decode_mistagged)

theorem decode_truncated_or_mistagged_witness:
  "UpdateRequest_Decode (take 19 (UpdateRequest_Encode \<lparr>req_RequestID = 1, req_Version = 7, req_Data = [9, 8, 7]\<rparr>))
     = Ok \<lparr>req_RequestID = 1, req_Version = 7, req_Data = [9]\<rparr>
   \<and> UpdateResponse_Decode (take 20 (UpdateResponse_Encode \<lparr>res_Error = 0, res_RequestID = 1, res_Version = 8, res_Data = [9, 8, 7]\<rparr>))
     = Ok \<lparr>res_Error = 0, res_RequestID = 1, res_Version = 8, res_Data = []\<rparr>
   \<and> VersionUpdateMessage_Decode (take 11 (VersionUpdateMessage_Encode \<lparr>upd_Version = 8, upd_Data = [9, 8, 7]\<rparr>))
     = Ok \<lparr>upd_Version = 8, upd_Data = [9]\<rparr>
   \<and> UpdateRequest_Decode [0, 4, 0, 0, 0, 0, 0, 0, 0, 8, 9] = Err (ErrorNew ''unexpected message type'')
   \<and> UpdateResponse_Decode [0, 4, 0, 0, 0, 0, 0, 0, 0, 8, 9] = Err (ErrorNew ''unexpected message type'')
   \<and> VersionUpdateMessage_Decode [0, 2] = Err (ErrorNew ''unexpected message type'')"
proof -
  have t: "GetMessageType [0, 4, 0, 0, 0, 0, 0, 0, 0, 8, 9] = Ok 4" "GetMessageType [0, 2] = Ok 2"
    by (simp_all add: GetMessageType_def Uint16_def)
  show ?thesis
    using decode_truncated_or_mistagged [where k = 19
        and r = "\<lparr>req_RequestID = 1, req_Version = 7, req_Data = [9, 8, 7]\<rparr>"
        and b = "[0, 4, 0, 0, 0, 0, 0, 0, 0, 8, 9]"]
      decode_truncated_or_mistagged [where k = 20
        and s = "\<lparr>res_Error = 0, res_RequestID = 1, res_Version = 8, res_Data = [9, 8, 7]\<rparr>"
        and b = "[0, 4, 0, 0, 0, 0, 0, 0, 0, 8, 9]"]
      decode_truncated_or_mistagged [where k = 11
        and m = "\<lparr>upd_Version = 8, upd_Data = [9, 8, 7]\<rparr>" and b = "[0, 2]"]
      t
    by (simp add: MessageTypeUpdateRequest_def MessageTypeUpdateResponse_def
        MessageTypeVersionUpdate_def)
qed

text \<open>The claim C8 fails on this input: the 19-byte prefix of a 21-byte update request is
  decoded without an error.\<close>

theorem decode_truncated_counterexample:
  "take 19 (UpdateRequest_Encode \<lparr>req_RequestID = 1, req_Version = 7, req_Data = [9, 8, 7]\<rparr>)
     = [0, 2, 0, 0, 0, 0, 0, 0, 0, 1, 0, 0, 0, 0, 0, 0, 0, 7, 9]
   \<and> UpdateRequest_Decode [0, 2, 0, 0, 0, 0, 0, 0, 0, 1, 0, 0, 0, 0, 0, 0, 0, 7, 9]
     = Ok \<lparr>req_RequestID = 1, req_Version = 7, req_Data = [9]\<rparr>"
  by (simp add: UpdateRequest_Encode_def UpdateRequest_Decode_def GetMessageType_def
      PutUint16_def PutUint64_def Uint16_def Uint64_def MessageTypeUpdateRequest_def)


section \<open>The internal write of the leader\<close>

lemma leader_write_mismatch:
  "ds_Get dsi (ds n) = (Inr (v, d0), d1) \<Longrightarrow> expected \<noteq> v \<Longrightarrow>
     leader_write dsi n expected data ex = ((v, [], Some ErrVersionMismatch), n\<lparr>ds := d1\<rparr>)"
  by (simp add: leader_write_def Leader_Version_def)

lemma leader_write_put_ok:
  "ds_Get dsi (ds n) = (Inr (v, d0), d1) \<Longrightarrow> ds_Put dsi (v + 1) data d1 = (None, d2) \<Longrightarrow>
     fst (leader_write dsi n v data ex) = (v + 1, data, None)
     \<and> ds (snd (leader_write dsi n v data ex)) = d2"
  by (simp add: leader_write_def Leader_Version_def Let_def)

lemma leader_write_put_failed:
  "ds_Get dsi (ds n) = (Inr (v, d0), d1) \<Longrightarrow> ds_Put dsi (v + 1) data d1 = (Some err, d2) \<Longrightarrow>
     leader_write dsi n v data ex = ((v, [], Some (Wrap ''failed to put data'' err)), n\<lparr>ds := d2\<rparr>)"
  by (simp add: leader_write_def Leader_Version_def Let_def)

lemma leader_write_accepted:
  assumes c: "put_get_contract dsi"
    and v0: "fst (Leader_Version dsi n) = Inr v0"
    and w: "leader_write dsi n version data ex = (r, n1)"
    and a: "accepted r"
  shows "fst (Leader_Version dsi n1) = Inr (v0 + 1)"
proof -
  obtain g d1 where g: "ds_Get dsi (ds n) = (g, d1)" by (cases "ds_Get dsi (ds n)")
  with v0 obtain d0 where g': "ds_Get dsi (ds n) = (Inr (v0, d0), d1)"
    by (cases g) (auto simp: Leader_Version_def split: prod.splits)
  have eq: "version = v0"
    using w a g' by (auto simp: leader_write_def Leader_Version_def accepted_def split: if_splits)
  obtain p d2 where p: "ds_Put dsi (v0 + 1) data d1 = (p, d2)" by (cases "ds_Put dsi (v0 + 1) data d1")
  have pn: "p = None"
    using w a g' p eq by (cases p) (auto simp: leader_write_def Leader_Version_def accepted_def Let_def)
  from p pn have p': "ds_Put dsi (v0 + 1) data d1 = (None, d2)" by simp
  have "ds n1 = d2"
    using leader_write_put_ok [OF g' p', of ex] w eq by simp
  moreover have "fst (ds_Get dsi d2) = Inr (v0 + 1, data)"
    using c p pn by (auto simp: put_get_contract_def)
  ultimately show ?thesis
    by (cases "ds_Get dsi d2") (auto simp: Leader_Version_def)
qed

lemma write_seq_accepted:
  "put_get_contract dsi \<Longrightarrow> fst (Leader_Version dsi n) = Inr v0 \<Longrightarrow>
   write_seq dsi n calls = (rs, n') \<Longrightarrow> list_all accepted rs \<Longrightarrow>
   fst (Leader_Version dsi n') = Inr (v0 + of_nat (length calls))"
proof (induction calls arbitrary: n v0 rs n')
  case Nil
  then show ?case by simp
next
  case (Cons c calls)
  obtain version data ex where c: "c = (version, data, ex)" by (cases c)
  obtain r n1 where w: "leader_write dsi n version data ex = (r, n1)"
    by (cases "leader_write dsi n version data ex")
  obtain rs1 n2 where s: "write_seq dsi n1 calls = (rs1, n2)"
    by (cases "write_seq dsi n1 calls")
  from Cons.prems(3) c w s have rs: "rs = r # rs1" and n': "n' = n2" by auto
  with Cons.prems(4) have a: "accepted r" and as: "list_all accepted rs1" by auto
  have "fst (Leader_Version dsi n1) = Inr (v0 + 1)"
    using leader_write_accepted [OF Cons.prems(1) Cons.prems(2) w a] .
  from Cons.IH [OF Cons.prems(1) this s as] n' show ?case
    by (simp add: add.assoc add.commute)
qed

text \<open>
  C1, as the code has it. Let the datastore's \<open>Get\<close> succeed with the current version
  \<open>v\<close>. If the expected version differs from \<open>v\<close>, the internal write returns
  \<open>(v, nil, VersionMismatch)\<close> and has called no method of the datastore but that \<open>Get\<close>.
  If the expected version is \<open>v\<close>, it calls \<open>Put (v + 1) data\<close>; when the put succeeds
  it returns \<open>(v + 1, data, ok)\<close> and the datastore is as the put left it; when the put
  fails it returns \<open>v\<close>, no data and the wrapped error of the put. For a datastore whose
  \<open>Get\<close> returns what the last successful \<open>Put\<close> stored, after a sequence of \<open>k\<close> writes
  that were all accepted, starting from version \<open>v0\<close>, the version is \<open>v0 + k\<close> (in
  64-bit arithmetic).
\<close>

theorem leader_write_postcondition:
  "(ds_Get dsi (ds n) = (Inr (v, d0), d1) \<and> expected \<noteq> v \<longrightarrow>
      leader_write dsi n expected data ex = ((v, [], Some ErrVersionMismatch), n\<lparr>ds := d1\<rparr>))
   \<and> (ds_Get dsi (ds n) = (Inr (v, d0), d1) \<and> ds_Put dsi (v + 1) data d1 = (None, d2) \<longrightarrow>
      fst (leader_write dsi n v data ex) = (v + 1, data, None)
      \<and> ds (snd (leader_write dsi n v data ex)) = d2)
   \<and> (ds_Get dsi (ds n) = (Inr (v, d0), d1) \<and> ds_Put dsi (v + 1) data d1 = (Some err, d2) \<longrightarrow>
      leader_write dsi n v data ex = ((v, [], Some (Wrap ''failed to put data'' err)), n\<lparr>ds := d2\<rparr>))
   \<and> (put_get_contract dsi \<and> fst (Leader_Version dsi n) = Inr v0
        \<and> write_seq dsi n calls = (rs, n') \<and> list_all accepted rs \<longrightarrow>
      fst (Leader_Version dsi n') = Inr (v0 + of_nat (length calls)))"
  using leader_write_mismatch [of dsi n v d0 d1 expected data ex]
    leader_write_put_ok [of dsi n v d0 d1 data d2 ex]
    leader_write_put_failed [of dsi n v d0 d1 data err d2 ex]
    write_seq_accepted [of dsi n v0 calls rs n']
  by blast

lemma put_get_contract_memory: "put_get_contract memory_Datastore"
  by (simp add: put_get_contract_def memory_Datastore_def)

theorem leader_write_postcondition_witness:
  "leader_write memory_Datastore example_leader 5 [97] [] =
      ((0, [], Some ErrVersionMismatch), example_leader)
   \<and> fst (leader_write memory_Datastore example_leader 0 [97] []) = (1, [97], None)
   \<and> ds (snd (leader_write memory_Datastore example_leader 0 [97] [])) = (1, [97])
   \<and> leader_write mock_put_fails example_mock_leader 1 [100, 97, 116, 97] [] =
      ((1, [], Some (Wrap ''failed to put data'' (ErrorNew ''put failed''))), example_mock_leader)
   \<and> fst (Leader_Version memory_Datastore
        (snd (write_seq memory_Datastore example_leader [(0, [97], []), (1, [98], [''a''])])))
      = Inr 2"
proof -
  have g: "ds_Get memory_Datastore (ds example_leader) = (Inr (0, []), (0, []))"
    by (simp add: memory_Datastore_def example_leader_def memory_NewDatastore_def)
  have p: "ds_Put memory_Datastore (0 + 1) [97] (0, []) = (None, (1, [97]))"
    by (simp add: memory_Datastore_def)
  have e: "example_leader\<lparr>ds := (0, [])\<rparr> = example_leader"
    by (simp add: example_leader_def memory_NewDatastore_def)
  have v: "fst (Leader_Version memory_Datastore example_leader) = Inr 0"
    by (simp add: Leader_Version_def g)
  obtain rs n' where s:
    "write_seq memory_Datastore example_leader [(0, [97], []), (1, [98], [''a''])] = (rs, n')"
    by (cases "write_seq memory_Datastore example_leader [(0, [97], []), (1, [98], [''a''])]")
  have a: "list_all accepted rs"
    using s
    by (auto simp: leader_write_def Leader_Version_def memory_Datastore_def example_leader_def
        memory_NewDatastore_def accepted_def Let_def broadcast_def)
  have gm: "ds_Get mock_put_fails (ds example_mock_leader) = (Inr (1, []), 1)"
    by (simp add: mock_put_fails_def example_mock_leader_def)
  have pm: "ds_Put mock_put_fails (1 + 1) [100, 97, 116, 97] 1 = (Some (ErrorNew ''put failed''), 1)"
    by (simp add: mock_put_fails_def)
  have em: "example_mock_leader\<lparr>ds := 1\<rparr> = example_mock_leader"
    by (simp add: example_mock_leader_def)
  have five: "(5::u64) \<noteq> 0" by simp
  show ?thesis
    using leader_write_postcondition [where dsi = memory_Datastore and n = example_leader
        and v = 0 and ?d0.0 = "[]" and ?d1.0 = "(0, [])" and expected = 5 and data = "[97]"
        and ex = "[]" and ?d2.0 = "(1, [97])" and ?v0.0 = 0
        and calls = "[(0, [97], []), (1, [98], [''a''])]" and rs = rs and n' = n']
      leader_write_postcondition [where dsi = mock_put_fails and n = example_mock_leader
        and v = 1 and ?d0.0 = "[]" and ?d1.0 = 1 and expected = 1 and data = "[100, 97, 116, 97]"
        and ex = "[]" and ?d2.0 = 1 and err = "ErrorNew ''put failed''"]
      g p e v s a gm pm em five put_get_contract_memory
    by simp
qed

text \<open>The claim C1 as stated fails where the put fails, as in the test "does not update
  version or data when put fails": the expected version is the current one, and the write
  returns the old version and an error.\<close>

theorem leader_write_put_failure_counterexample:
  "ds_Get mock_put_fails (ds example_mock_leader) = (Inr (1, []), 1)
   \<and> fst (leader_write mock_put_fails example_mock_leader 1 [100, 97, 116, 97] [])
       = (1, [], Some (Wrap ''failed to put data'' (ErrorNew ''put failed'')))
   \<and> fst (leader_write mock_put_fails example_mock_leader 1 [100, 97, 116, 97] [])
       \<noteq> (1 + 1, [100, 97, 116, 97], None)"
  by (simp add: leader_write_def Leader_Version_def mock_put_fails_def example_mock_leader_def)

section \<open>Update requests on the leader\<close>

lemma map_fst_broadcast: "map fst (broadcast msg ex cs) = map fst cs"
  by (induction cs) (auto simp: broadcast_def)

lemma map_of_broadcast:
  "map_of (broadcast msg ex cs) k =
     (case map_of cs k of
        None \<Rightarrow> None
      | Some c \<Rightarrow> Some (if k \<in> set ex then c else snd (Conn_Write c msg)))"
  by (induction cs) (auto simp: broadcast_def)

lemma map_of_respond:
  "map_of (map (\<lambda>(k, c'). if k = cid then (k, f c') else (k, c')) cs) k =
     (case map_of cs k of None \<Rightarrow> None | Some c \<Rightarrow> Some (if k = cid then f c else c))"
  by (induction cs) auto

lemma map_fst_respond:
  "map (fst \<circ> (\<lambda>(k, c'). if k = cid then (k, f c') else (k, c'))) cs = map fst cs"
  by (induction cs) auto

lemma UpdateRequest_Decode_Ok_tag:
  "UpdateRequest_Decode b = Ok r \<Longrightarrow> GetMessageType b = Ok MessageTypeUpdateRequest"
  by (cases "GetMessageType b") (auto simp: UpdateRequest_Decode_def split: if_splits)

lemma leader_write_accept:
  assumes g: "ds_Get dsi (ds n) = (Inr (v, d0), d1)"
    and p: "ds_Put dsi (v + 1) data d1 = (None, d2)"
  shows "leader_write dsi n v data ex =
     ((v + 1, data, None),
      n\<lparr>ds := d2,
        clients := broadcast (PrependRequestLength
            (VersionUpdateMessage_Encode \<lparr>upd_Version = v + 1, upd_Data = data\<rparr>)) ex (clients n)\<rparr>)"
  using g p by (cases "clients n") (simp_all add: leader_write_def Leader_Version_def Let_def broadcast_def)

text \<open>
  C3. Let the leader handle a frame that decodes to an update request of client \<open>c\<close>,
  where \<open>c\<close> is in the client map, the requested version is the current one and the
  put succeeds (the write is accepted). Then the new version is the previous one plus 1,
  the client map keeps its keys, every client in it other than \<open>c\<close> has had the
  length-prefixed \<open>VersionUpdate\<close> of the new version and the data written to its
  connection, and the connection of \<open>c\<close> has had written to it, instead, the
  length-prefixed \<open>UpdateResponse\<close> with the request id of the request, no error, the new
  version and the data.
\<close>

theorem update_request_fanout:
  assumes dec: "UpdateRequest_Decode reqBody = Ok req"
    and g: "ds_Get dsi (ds n) = (Inr (req_Version req, d0), d1)"
    and p: "ds_Put dsi (req_Version req + 1) (req_Data req) d1 = (None, d2)"
    and c: "map_of (clients n) c = Some conn"
  shows "\<exists>n'. handleClientRequest dsi n c reqBody = Ok n'
      \<and> ds n' = d2
      \<and> map fst (clients n') = map fst (clients n)
      \<and> (\<forall>k w. map_of (clients n) k = Some w \<and> k \<noteq> c \<longrightarrow>
            map_of (clients n') k = Some (snd (Conn_Write w (PrependRequestLength
              (VersionUpdateMessage_Encode
                 \<lparr>upd_Version = req_Version req + 1, upd_Data = req_Data req\<rparr>)))))
      \<and> map_of (clients n') c = Some (snd (Conn_Write conn (PrependRequestLength
              (UpdateResponse_Encode
                 \<lparr>res_Error = ResponseErrorNone, res_RequestID = req_RequestID req,
                  res_Version = req_Version req + 1, res_Data = req_Data req\<rparr>))))"
  using UpdateRequest_Decode_Ok_tag [OF dec] dec c
  by (simp add: handleClientRequest_def leader_write_accept [OF g p] map_of_broadcast
      map_of_respond map_fst_respond map_fst_broadcast Let_def)

theorem update_request_fanout_witness:
  "\<exists>n'. handleClientRequest memory_Datastore example_leader ''a''
            (UpdateRequest_Encode example_request) = Ok n'
      \<and> ds n' = (1, [97])
      \<and> map fst (clients n') = [''a'', ''b'']
      \<and> map_of (clients n') ''b'' = Some \<lparr>conn_closed = False, conn_written =
            [PrependRequestLength (VersionUpdateMessage_Encode \<lparr>upd_Version = 1, upd_Data = [97]\<rparr>)]\<rparr>
      \<and> map_of (clients n') ''a'' = Some \<lparr>conn_closed = False, conn_written =
            [PrependRequestLength (UpdateResponse_Encode
               \<lparr>res_Error = 0, res_RequestID = 5, res_Version = 1, res_Data = [97]\<rparr>)]\<rparr>"
proof -
  have dec: "UpdateRequest_Decode (UpdateRequest_Encode example_request) = Ok example_request"
    by (rule UpdateRequest_roundtrip)
  have g: "ds_Get memory_Datastore (ds example_leader)
      = (Inr (req_Version example_request, []), (0, []))"
    by (simp add: memory_Datastore_def example_leader_def memory_NewDatastore_def
        example_request_def)
  have p: "ds_Put memory_Datastore (req_Version example_request + 1) (req_Data example_request)
      (0, []) = (None, (1, [97]))"
    by (simp add: memory_Datastore_def example_request_def)
  have c: "map_of (clients example_leader) ''a'' = Some example_conn"
    by (simp add: example_leader_def)
  have b: "map_of (clients example_leader) ''b'' = Some example_conn \<and> ''b'' \<noteq> ''a''"
    by (simp add: example_leader_def)
  from update_request_fanout [OF dec g p c] obtain n' where
    n': "handleClientRequest memory_Datastore example_leader ''a''
            (UpdateRequest_Encode example_request) = Ok n'"
      "ds n' = (1, [97])" "map fst (clients n') = map fst (clients example_leader)"
      "\<forall>k w. map_of (clients example_leader) k = Some w \<and> k \<noteq> ''a'' \<longrightarrow>
            map_of (clients n') k = Some (snd (Conn_Write w (PrependRequestLength
              (VersionUpdateMessage_Encode
                 \<lparr>upd_Version = req_Version example_request + 1,
                  upd_Data = req_Data example_request\<rparr>))))"
      "map_of (clients n') ''a'' = Some (snd (Conn_Write example_conn (PrependRequestLength
              (UpdateResponse_Encode
                 \<lparr>res_Error = ResponseErrorNone, res_RequestID = req_RequestID example_request,
                  res_Version = req_Version example_request + 1,
                  res_Data = req_Data example_request\<rparr>))))"
    by blast
  from n'(4) b have "map_of (clients n') ''b'' = Some (snd (Conn_Write example_conn
      (PrependRequestLength (VersionUpdateMessage_Encode
                 \<lparr>upd_Version = req_Version example_request + 1,
                  upd_Data = req_Data example_request\<rparr>))))"
    by blast
  with n'(1,2,3,5) show ?thesis
    by (simp add: Conn_Write_def example_conn_def example_request_def example_leader_def
        ResponseErrorNone_def)
qed

section \<open>Construction of the leader\<close>

text \<open>
  C9. If a regular file exists at the endpoint path, \<open>NewLeaderNode\<close> returns
  \<open>LeaderAlreadyExists\<close>; the state of the datastore is the one it was given, whatever
  the \<open>Open\<close> of the datastore would do to it, and the path still names the regular file:
  nothing was opened and nothing was bound. If the path is a directory the call fails with
  an error that is not \<open>LeaderAlreadyExists\<close> and does not wrap it, and again leaves the
  datastore and the path alone.
\<close>

theorem leader_already_exists:
  "NewLeaderNode dsi (RegularFile content) d = (Inl ErrLeaderAlreadyExists, RegularFile content, d)
   \<and> (\<exists>err. NewLeaderNode dsi Directory d = (Inl err, Directory, d)
          \<and> \<not> errors_Is err ErrLeaderAlreadyExists)"
  by (simp add: NewLeaderNode_def fileExists_def os_Stat_def)

lemma NewLeaderNode_new:
  "ds_Open dsi d = (None, d1) \<Longrightarrow>
   NewLeaderNode dsi NoEntry d =
     (Inr \<lparr>clients = [], listener = True, ds = d1, watchChannels = []\<rparr>, Socket, d1)"
  by (simp add: NewLeaderNode_def fileExists_def os_Stat_def net_Listen_def)

lemma NewLeaderNode_socket:
  "NewLeaderNode dsi Socket d = (Inl ErrLeaderAlreadyExists, Socket, d)"
  by (simp add: NewLeaderNode_def fileExists_def os_Stat_def)


section \<open>The write of the follower\<close>

lemma Write_send_mismatch:
  "ds_Get dsi (fol_ds n) = (Inr (v, d0), d1) \<Longrightarrow> version \<noteq> v \<Longrightarrow>
   Write_send dsi n version data = (Some ErrVersionMismatch, n\<lparr>fol_ds := d1\<rparr>)"
  by (simp add: Write_send_def Follower_Version_def)

lemma Write_send_ok:
  "ds_Get dsi (fol_ds n) = (Inr (version, d0), d1) \<Longrightarrow> \<not> conn_closed (server n) \<Longrightarrow>
   Write_send dsi n version data =
     (None, n\<lparr>fol_ds := d1,
              server := (server n)\<lparr>conn_written := conn_written (server n) @
                [PrependRequestLength (UpdateRequest_Encode
                   \<lparr>req_RequestID = nextRequestID n, req_Version = version, req_Data = data\<rparr>)]\<rparr>\<rparr>)"
  by (simp add: Write_send_def Follower_Version_def Conn_Write_def Let_def)

text \<open>
  C4, as the code has it. Let the local \<open>Get\<close> succeed with version \<open>v\<close>. If the expected
  version differs from \<open>v\<close>, \<open>Write\<close> returns \<open>VersionMismatch\<close> and the node is as it
  was but for that \<open>Get\<close>: nothing was written to the connection. Otherwise, with the
  connection open, when the response \<open>res\<close> arrives: for the error code \<open>None\<close> the follower
  calls \<open>Put\<close> with the version of the response and the data it sent, and returns what that
  put returns (ok when the put succeeds, its error when it fails); \<open>MismatchedVersion\<close>
  gives \<open>VersionMismatch\<close>, \<open>WriteFailed\<close> gives \<open>LeaderFailedToWrite\<close>, any other code
  gives a generic error, and in these three cases the local datastore is not written.
\<close>

theorem follower_write_translation:
  "(ds_Get dsi (fol_ds n) = (Inr (v, d0), d1) \<and> version \<noteq> v \<longrightarrow>
      Follower_Write dsi n version data arrival
        = (Returned (Some ErrVersionMismatch), n\<lparr>fol_ds := d1\<rparr>))
   \<and> (ds_Get dsi (fol_ds n) = (Inr (version, d0), d1) \<and> \<not> conn_closed (server n) \<longrightarrow>
        (res_Error res = ResponseErrorNone \<longrightarrow>
           fst (Follower_Write dsi n version data (Some res))
             = Returned (fst (ds_Put dsi (res_Version res) data d1))
           \<and> fol_ds (snd (Follower_Write dsi n version data (Some res)))
             = snd (ds_Put dsi (res_Version res) data d1))
      \<and> (res_Error res = ResponseErrorMismatchedVersion \<longrightarrow>
           fst (Follower_Write dsi n version data (Some res)) = Returned (Some ErrVersionMismatch)
           \<and> fol_ds (snd (Follower_Write dsi n version data (Some res))) = d1)
      \<and> (res_Error res = ResponseErrorWriteFailed \<longrightarrow>
           fst (Follower_Write dsi n version data (Some res)) = Returned (Some ErrLeaderFailedToWrite)
           \<and> fol_ds (snd (Follower_Write dsi n version data (Some res))) = d1)
      \<and> (res_Error res \<noteq> ResponseErrorNone \<and> res_Error res \<noteq> ResponseErrorMismatchedVersion
            \<and> res_Error res \<noteq> ResponseErrorWriteFailed \<longrightarrow>
           fst (Follower_Write dsi n version data (Some res))
             = Returned (Some (ErrorNew ''unknown error''))
           \<and> fol_ds (snd (Follower_Write dsi n version data (Some res))) = d1))"
  by (auto simp: Follower_Write_def Write_send_mismatch Write_send_ok Write_register_def
      Write_receive_def ResponseErrorNone_def ResponseErrorMismatchedVersion_def
      ResponseErrorWriteFailed_def split: prod.splits)

theorem follower_write_translation_witness:
  "Follower_Write memory_Datastore example_follower 0 [110, 101, 119] None
      = (Returned (Some ErrVersionMismatch), example_follower)
   \<and> fst (Follower_Write memory_Datastore example_follower 1 [110, 101, 119]
             (Some (example_response 0))) = Returned None
   \<and> fol_ds (snd (Follower_Write memory_Datastore example_follower 1 [110, 101, 119]
             (Some (example_response 0)))) = (2, [110, 101, 119])
   \<and> fst (Follower_Write memory_Datastore example_follower 1 [110, 101, 119]
             (Some (example_response 1))) = Returned (Some ErrVersionMismatch)
   \<and> fst (Follower_Write memory_Datastore example_follower 1 [110, 101, 119]
             (Some (example_response 2))) = Returned (Some ErrLeaderFailedToWrite)
   \<and> fst (Follower_Write memory_Datastore example_follower 1 [110, 101, 119]
             (Some (example_response 7))) = Returned (Some (ErrorNew ''unknown error''))"
proof -
  have g: "ds_Get memory_Datastore (fol_ds example_follower)
      = (Inr (1, [116, 101, 115, 116]), (1, [116, 101, 115, 116]))"
    by (simp add: memory_Datastore_def example_follower_def)
  have o: "\<not> conn_closed (server example_follower)"
    by (simp add: example_follower_def example_conn_def)
  have e: "example_follower\<lparr>fol_ds := (1, [116, 101, 115, 116])\<rparr> = example_follower"
    by (simp add: example_follower_def)
  have p: "ds_Put memory_Datastore 2 [110, 101, 119] (1, [116, 101, 115, 116])
      = (None, (2, [110, 101, 119]))"
    by (simp add: memory_Datastore_def)
  have z: "(0::u64) \<noteq> 1" by simp
  note t = follower_write_translation [where dsi = memory_Datastore and n = example_follower
      and v = 1 and ?d0.0 = "[116, 101, 115, 116]" and ?d1.0 = "(1, [116, 101, 115, 116])"
      and data = "[110, 101, 119]"]
  show ?thesis
    using t [where version = 0 and arrival = None]
      t [where version = 1 and res = "example_response 0"]
      t [where version = 1 and res = "example_response 1"]
      t [where version = 1 and res = "example_response 2"]
      t [where version = 1 and res = "example_response 7"]
      g o e p z
    by (simp add: example_response_def ResponseErrorNone_def ResponseErrorMismatchedVersion_def
        ResponseErrorWriteFailed_def)
qed

text \<open>The claim C4 as stated fails where the local put fails: the response carries the
  error code \<open>None\<close>, and \<open>Write\<close> returns the error of the put.\<close>

theorem follower_write_put_failure_counterexample:
  "res_Error (example_response 0) = ResponseErrorNone
   \<and> fst (Follower_Write mock_put_fails example_mock_follower 1 [110, 101, 119]
            (Some (example_response 0))) = Returned (Some (ErrorNew ''put failed''))
   \<and> fst (Follower_Write mock_put_fails example_mock_follower 1 [110, 101, 119]
            (Some (example_response 0))) \<noteq> Returned None"
  by (simp add: Follower_Write_def Write_send_def Follower_Version_def Write_register_def
      Write_receive_def Conn_Write_def mock_put_fails_def example_mock_follower_def
      example_conn_def example_response_def ResponseErrorNone_def Let_def)

lemma GetMessageType_UpdateResponse_Encode:
  "GetMessageType (UpdateResponse_Encode res) = Ok MessageTypeUpdateResponse"
  by (simp add: UpdateResponse_Encode_def)

lemma handleMessage_response_dropped:
  "requests n (res_RequestID res) = None \<Longrightarrow>
   handleMessage dsi n (UpdateResponse_Encode res) = Ok n"
  by (simp add: handleMessage_def GetMessageType_UpdateResponse_Encode UpdateResponse_roundtrip)

lemma handleMessage_response_delivered:
  "requests n (res_RequestID res) = Some ch \<Longrightarrow>
   handleMessage dsi n (UpdateResponse_Encode res)
     = Ok (n\<lparr>requests := (requests n)(res_RequestID res \<mapsto> ch @ [res])\<rparr>)"
  by (simp add: handleMessage_def GetMessageType_UpdateResponse_Encode UpdateResponse_roundtrip)

text \<open>The first stretch of \<open>Write\<close> never touches \<open>requests\<close> or the counter of request
  ids: when it has put the request on the wire, the channel for its id is still to be
  made.\<close>

lemma Write_send_requests:
  "requests (snd (Write_send dsi n version data)) = requests n
   \<and> nextRequestID (snd (Write_send dsi n version data)) = nextRequestID n"
  by (auto simp: Write_send_def Follower_Version_def Let_def
      split: prod.splits sum.splits option.splits)

text \<open>
  C5 does not hold of the code: \<open>Write\<close> writes the request to the leader first and
  registers the response channel afterwards. For a follower at version 1 with no request
  outstanding, after the stretch of \<open>Write 1 data\<close> that ends with the write to the
  connection, the request with id 1 is on the wire and \<open>requests\<close> has no channel for id 1;
  a response for id 1 handled at that moment is dropped and leaves the node as it is. Only
  the statements that follow put the channel into \<open>requests\<close>.
\<close>

theorem follower_write_sends_before_registering:
  "fst (Write_send memory_Datastore example_follower 1 [110, 101, 119]) = None
   \<and> conn_written (server (snd (Write_send memory_Datastore example_follower 1 [110, 101, 119]))) =
          [PrependRequestLength (UpdateRequest_Encode
             \<lparr>req_RequestID = 1, req_Version = 1, req_Data = [110, 101, 119]\<rparr>)]
   \<and> requests (snd (Write_send memory_Datastore example_follower 1 [110, 101, 119])) 1 = None
   \<and> handleMessage memory_Datastore
        (snd (Write_send memory_Datastore example_follower 1 [110, 101, 119]))
        (UpdateResponse_Encode (example_response 0))
      = Ok (snd (Write_send memory_Datastore example_follower 1 [110, 101, 119]))
   \<and> requests (snd (Write_register
        (snd (Write_send memory_Datastore example_follower 1 [110, 101, 119])))) 1 = Some []"
proof -
  have g: "ds_Get memory_Datastore (fol_ds example_follower)
      = (Inr (1, [116, 101, 115, 116]), (1, [116, 101, 115, 116]))"
    by (simp add: memory_Datastore_def example_follower_def)
  have o: "\<not> conn_closed (server example_follower)"
    by (simp add: example_follower_def example_conn_def)
  define n1 where "n1 = example_follower\<lparr>fol_ds := (1, [116, 101, 115, 116]),
              server := (server example_follower)\<lparr>conn_written :=
                conn_written (server example_follower) @
                [PrependRequestLength (UpdateRequest_Encode
                   \<lparr>req_RequestID = nextRequestID example_follower, req_Version = 1,
                    req_Data = [110, 101, 119]\<rparr>)]\<rparr>\<rparr>"
  have s: "Write_send memory_Datastore example_follower 1 [110, 101, 119] = (None, n1)"
    unfolding n1_def by (rule Write_send_ok [OF g o])
  have w: "conn_written (server n1) =
          [PrependRequestLength (UpdateRequest_Encode
             \<lparr>req_RequestID = 1, req_Version = 1, req_Data = [110, 101, 119]\<rparr>)]"
    by (simp add: n1_def example_follower_def example_conn_def)
  have r: "requests n1 (res_RequestID (example_response 0)) = None"
    by (simp add: n1_def example_follower_def)
  have i: "res_RequestID (example_response 0) = 1" by (simp add: example_response_def)
  have h: "handleMessage memory_Datastore n1 (UpdateResponse_Encode (example_response 0)) = Ok n1"
    by (rule handleMessage_response_dropped [OF r])
  have k: "requests (snd (Write_register n1)) 1 = Some []"
    by (simp add: Write_register_def n1_def example_follower_def)
  from s w r i h k show ?thesis by simp
qed


section \<open>The append-only log\<close>

text \<open>64-bit offsets that stay below \<open>2 ^ 63\<close> read the same signed and unsigned.\<close>

lemma unat_of_nat_small: "n < 2 ^ 64 \<Longrightarrow> unat (of_nat n :: u64) = n"
  by (simp add: unat_of_nat take_bit_nat_eq_self)

lemma sint_headerOffset_plus:
  "26 + unat (w :: u64) < 2 ^ 63 \<Longrightarrow> sint (headerOffset + w) = int (26 + unat w)"
proof -
  assume b: "26 + unat w < 2 ^ 63"
  have "headerOffset + w = of_nat (26 + unat w)"
    by (simp add: headerOffset_def FileVersionHeaderFieldSize_def OffsetHeaderFieldSize_def
        NextOffsetHeaderFieldSize_def VersionHeaderFieldSize_def)
  then show ?thesis using sint_of_nat_small [OF b] by simp
qed

lemma unat_plus_len:
  "unat (w :: u64) + n < 2 ^ 63 \<Longrightarrow> unat (w + of_nat n) = unat w + n"
  by (simp add: unat_word_ariths unat_of_nat take_bit_nat_eq_self)

lemma le_plus_len:
  "unat (w :: u64) + n < 2 ^ 63 \<Longrightarrow> w \<le> w + of_nat n"
  by (simp add: word_le_nat_alt unat_plus_len)

lemma sint_diff_len:
  "unat (w :: u64) + n < 2 ^ 63 \<Longrightarrow> sint (w + of_nat n - w) = int n"
  by (simp add: sint_of_nat_small)

lemma sint_small: "unat (w :: u64) < 2 ^ 63 \<Longrightarrow> sint w = int (unat w)"
  using sint_of_nat_small [of "unat w"] by simp

lemmas header_consts = headerOffset_def FileVersionHeaderFieldSize_def OffsetHeaderFieldSize_def
  NextOffsetHeaderFieldSize_def VersionHeaderFieldSize_def FileVersionHeaderPos_def
  OffsetHeaderPos_def NextOffsetHeaderPos_def VersionHeaderPos_def

lemma Uint16_zeros: "Uint16 [0, 0] = 0"
  by (simp add: Uint16_def)

lemma Uint64_zeros: "Uint64 [0, 0, 0, 0, 0, 0, 0, 0] = 0"
  by (simp add: Uint64_def)

text \<open>With an open file, a header reader never fails: the only error of a read is the end
  of the file, and the reader turns it into the value 0.\<close>

lemma readFileVersionHeader_open:
  "aof_file aof = Some f \<Longrightarrow>
   \<exists>x f'. readFileVersionHeader aof e = ((x, None), aof\<lparr>aof_file := Some f'\<rparr>)"
  by (auto simp add: readFileVersionHeader_def File_Seek_def File_Read_def Let_def header_consts)

lemma readOffsetHeader_open:
  "aof_file aof = Some f \<Longrightarrow>
   \<exists>x f'. readOffsetHeader aof e = ((x, None), aof\<lparr>aof_file := Some f'\<rparr>)"
  by (auto simp add: readOffsetHeader_def File_Seek_def File_Read_def Let_def header_consts)

lemma readNextOffsetHeader_open:
  "aof_file aof = Some f \<Longrightarrow>
   \<exists>x f'. readNextOffsetHeader aof e = ((x, None), aof\<lparr>aof_file := Some f'\<rparr>)"
  by (auto simp add: readNextOffsetHeader_def File_Seek_def File_Read_def Let_def header_consts)

lemma readVersionHeader_open:
  "aof_file aof = Some f \<Longrightarrow>
   \<exists>x f'. readVersionHeader aof e = ((x, None), aof\<lparr>aof_file := Some f'\<rparr>)"
  by (auto simp add: readVersionHeader_def File_Seek_def File_Read_def Let_def header_consts)

lemma take_drop_take: "k + n \<le> m \<Longrightarrow> take n (drop k c) = take n (drop k (take m c))"
  by (simp add: drop_take min_def)

text \<open>Reading the fields of a header that is all there.\<close>

lemma header_length:
  "take 26 c = PutUint16 fv @ PutUint64 off @ PutUint64 nxt @ PutUint64 v \<Longrightarrow> 26 \<le> length c"
proof -
  assume h: "take 26 c = PutUint16 fv @ PutUint64 off @ PutUint64 nxt @ PutUint64 v"
  have "length (take 26 c) = length (PutUint16 fv @ PutUint64 off @ PutUint64 nxt @ PutUint64 v)"
    by (simp only: h)
  then show "26 \<le> length c" by (simp add: min_def split: if_splits)
qed

lemma readFileVersionHeader_header:
  assumes "aof_file aof = Some f"
    and "take 26 c = PutUint16 fv @ PutUint64 off @ PutUint64 nxt @ PutUint64 v"
  shows "readFileVersionHeader aof (RegularFile c) = ((fv, None), aof\<lparr>aof_file := Some 2\<rparr>)"
proof -
  have "take 2 (drop 0 c) = PutUint16 fv"
    using take_drop_take [of 0 2 26 c] assms(2) by simp
  then show ?thesis using assms(1) header_length [OF assms(2)]
    by (auto simp add: readFileVersionHeader_def File_Seek_def File_Read_def Let_def header_consts
        file_content_def)
qed

lemma readOffsetHeader_header:
  assumes "aof_file aof = Some f"
    and "take 26 c = PutUint16 fv @ PutUint64 off @ PutUint64 nxt @ PutUint64 v"
  shows "readOffsetHeader aof (RegularFile c) = ((off, None), aof\<lparr>aof_file := Some 10\<rparr>)"
proof -
  have "take 8 (drop 2 c) = PutUint64 off"
    using take_drop_take [of 2 8 26 c] assms(2) by simp
  then show ?thesis using assms(1) header_length [OF assms(2)]
    by (simp add: readOffsetHeader_def File_Seek_def File_Read_def Let_def header_consts
        file_content_def)
qed

lemma readNextOffsetHeader_header:
  assumes "aof_file aof = Some f"
    and "take 26 c = PutUint16 fv @ PutUint64 off @ PutUint64 nxt @ PutUint64 v"
  shows "readNextOffsetHeader aof (RegularFile c) = ((nxt, None), aof\<lparr>aof_file := Some 18\<rparr>)"
proof -
  have "take 8 (drop 10 c) = PutUint64 nxt"
    using take_drop_take [of 10 8 26 c] assms(2) by simp
  then show ?thesis using assms(1) header_length [OF assms(2)]
    by (simp add: readNextOffsetHeader_def File_Seek_def File_Read_def Let_def header_consts
        file_content_def)
qed

lemma readVersionHeader_header:
  assumes "aof_file aof = Some f"
    and "take 26 c = PutUint16 fv @ PutUint64 off @ PutUint64 nxt @ PutUint64 v"
  shows "readVersionHeader aof (RegularFile c) = ((v, None), aof\<lparr>aof_file := Some 26\<rparr>)"
proof -
  have "take 8 (drop 18 c) = PutUint64 v"
    using take_drop_take [of 18 8 26 c] assms(2) by simp
  then show ?thesis using assms(1) header_length [OF assms(2)]
    by (simp add: readVersionHeader_def File_Seek_def File_Read_def Let_def header_consts
        file_content_def)
qed

text \<open>\<open>write_at\<close>: what is written is there, what lies before it stays, and the file does
  not shrink.\<close>

lemma length_write_at: "length (write_at p b c) = max (length c) (p + length b)"
  by (simp add: write_at_def)

lemma write_at_0: "write_at 0 b c = b @ drop (length b) c"
  by (simp add: write_at_def)

lemma drop_write_at: "drop p (write_at p b c) = b @ drop (p + length b) c"
  by (simp add: write_at_def)

lemma take_write_at: "take (length b) (drop p (write_at p b c)) = b"
  by (simp add: drop_write_at)

lemma take_drop_write_at_before:
  "q + k \<le> p \<Longrightarrow> q + k \<le> length c \<Longrightarrow>
   take k (drop q (write_at p b c)) = take k (drop q c)"
  by (simp add: write_at_def drop_take min_def)

lemma File_Write_nonempty:
  "b \<noteq> [] \<Longrightarrow>
   File_Write f e b = ((length b, None), f + length b, RegularFile (write_at f b (file_content e)))"
  by (simp add: File_Write_def)

lemma writeHeaders_open:
  assumes "aof_file aof = Some f"
  shows "writeHeaders aof (RegularFile c) v =
     (None, aof\<lparr>aof_file := Some 26\<rparr>,
      RegularFile ((PutUint16 (fileVersion aof) @ PutUint64 (offset aof)
          @ PutUint64 (nextOffset aof) @ PutUint64 v) @ drop 26 c))"
proof -
  let ?h = "PutUint16 (fileVersion aof) @ PutUint64 (offset aof)
          @ PutUint64 (nextOffset aof) @ PutUint64 v"
  have hn: "?h \<noteq> []" by (simp add: PutUint16_def)
  have hl: "length ?h = 26" by simp
  have "File_Write 0 (RegularFile c) ?h = ((26, None), 26, RegularFile (?h @ drop 26 c))"
    using File_Write_nonempty [OF hn, of 0 "RegularFile c"] hl
    by (simp only: write_at_0 file_content_def entry.case) simp
  then show ?thesis using assms
    by (simp add: writeHeaders_def File_Seek_def Let_def del: append_assoc)
qed

lemma appendonly_Open_header:
  assumes cl: "aof_file aof = None"
    and hd: "take 26 c = PutUint16 (fileVersion aof) @ PutUint64 off @ PutUint64 nxt @ PutUint64 v"
    and le: "off \<le> nxt"
    and sz: "sint off \<le> int (length c)"
  shows "appendonly_Open aof (RegularFile c) =
     (None, aof\<lparr>aof_file := Some 18, offset := off, nextOffset := nxt\<rparr>, RegularFile c)"
proof -
  have l: "26 \<le> length c" by (rule header_length [OF hd])
  have r1: "readFileVersionHeader (aof\<lparr>aof_file := Some 0\<rparr>) (RegularFile c)
      = ((fileVersion aof, None), aof\<lparr>aof_file := Some 2\<rparr>)"
    using readFileVersionHeader_header [of "aof\<lparr>aof_file := Some 0\<rparr>" 0 c "fileVersion aof" off nxt v]
      hd by simp
  have r2: "readOffsetHeader (aof\<lparr>aof_file := Some 2\<rparr>) (RegularFile c)
      = ((off, None), aof\<lparr>aof_file := Some 10\<rparr>)"
    using readOffsetHeader_header [of "aof\<lparr>aof_file := Some 2\<rparr>" 2 c "fileVersion aof" off nxt v]
      hd by simp
  have r3: "readNextOffsetHeader (aof\<lparr>aof_file := Some 10, offset := off\<rparr>) (RegularFile c)
      = ((nxt, None), aof\<lparr>aof_file := Some 18, offset := off\<rparr>)"
    using readNextOffsetHeader_header [of "aof\<lparr>aof_file := Some 10, offset := off\<rparr>" 10 c
        "fileVersion aof" off nxt v] hd by simp
  show ?thesis
    using cl l le sz
    by (auto simp add: appendonly_Open_def os_OpenFile_def os_Stat_def r1 r2 r3 Let_def)
qed

lemma appendonly_Open_fresh:
  assumes "aof_file aof = None" and "e = NoEntry \<or> e = RegularFile []"
  shows "appendonly_Open aof e = (None, aof\<lparr>aof_file := Some 0\<rparr>, RegularFile [])"
  using assms by (auto simp: appendonly_Open_def os_OpenFile_def os_Stat_def)

lemma appendonly_Put_open:
  assumes op: "aof_file aof = Some f"
    and b: "26 + unat (nextOffset aof) + length d < 2 ^ 63"
  shows "\<exists>c'. appendonly_Put v d aof (RegularFile c) =
       (None,
        aof\<lparr>aof_file := Some 26, offset := nextOffset aof,
            nextOffset := nextOffset aof + of_nat (length d)\<rparr>,
        RegularFile c')
     \<and> take 26 c' = PutUint16 (fileVersion aof) @ PutUint64 (nextOffset aof)
          @ PutUint64 (nextOffset aof + of_nat (length d)) @ PutUint64 v
     \<and> take (length d) (drop (26 + unat (nextOffset aof)) c') = d
     \<and> length c \<le> length c'
     \<and> (d \<noteq> [] \<longrightarrow> 26 + unat (nextOffset aof) + length d \<le> length c')
     \<and> (\<forall>q k. 26 \<le> q \<and> q + k \<le> 26 + unat (nextOffset aof) \<and> q + k \<le> length c
           \<longrightarrow> take k (drop q c') = take k (drop q c))"
proof -
  let ?N = "unat (nextOffset aof)"
  let ?h = "PutUint16 (fileVersion aof) @ PutUint64 (nextOffset aof)
          @ PutUint64 (nextOffset aof + of_nat (length d)) @ PutUint64 v"
  have s: "sint (headerOffset + nextOffset aof) = int (26 + ?N)"
    using b by (intro sint_headerOffset_plus) simp
  have hl: "length ?h = 26" by simp
  have sk: "File_Seek f (sint (headerOffset + nextOffset aof)) = (None, 26 + ?N)"
    by (simp only: s File_Seek_def nat_int of_nat_less_0_iff if_False)
  let ?m = "if d = [] then c else write_at (26 + ?N) d c"
  let ?a = "aof\<lparr>aof_file := Some (26 + ?N + length d), offset := nextOffset aof,
            nextOffset := nextOffset aof + of_nat (length d)\<rparr>"
  have w: "File_Write (26 + ?N) (RegularFile c) d
      = ((length d, None), 26 + ?N + length d, RegularFile ?m)"
    by (simp add: File_Write_def file_content_def)
  have h: "writeHeaders ?a (RegularFile ?m) v =
     (None, ?a\<lparr>aof_file := Some 26\<rparr>, RegularFile (?h @ drop 26 ?m))"
    using writeHeaders_open [of ?a "26 + ?N + length d" ?m v] by simp
  have e: "appendonly_Put v d aof (RegularFile c) =
       (None,
        aof\<lparr>aof_file := Some 26, offset := nextOffset aof,
            nextOffset := nextOffset aof + of_nat (length d)\<rparr>,
        RegularFile (?h @ drop 26 ?m))"
    using h
    by (simp add: appendonly_Put_def op sk w Let_def del: append_assoc)
  have m1: "take (length d) (drop (26 + ?N) ?m) = d"
    by (simp add: take_write_at)
  have d: "drop q (?h @ drop 26 ?m) = drop q ?m" if "26 \<le> q" for q
    using that by (simp del: append_assoc add: hl)
  have c1: "take 26 (?h @ drop 26 ?m) = ?h" by (simp del: append_assoc add: hl)
  have c2: "take (length d) (drop (26 + ?N) (?h @ drop 26 ?m)) = d"
    using d [of "26 + ?N"] m1 by simp
  have c3: "length c \<le> length (?h @ drop 26 ?m)"
    by (auto simp add: length_write_at)
  have c4: "d \<noteq> [] \<longrightarrow> 26 + ?N + length d \<le> length (?h @ drop 26 ?m)"
    by (auto simp add: length_write_at)
  have c5: "take k (drop q (?h @ drop 26 ?m)) = take k (drop q c)"
    if "26 \<le> q \<and> q + k \<le> 26 + ?N \<and> q + k \<le> length c" for q k
    using that d [of q] take_drop_write_at_before [of q k "26 + ?N" c d] by simp
  from e c1 c2 c3 c4 c5 show ?thesis by blast
qed

lemma appendonly_Close_open:
  "aof_file aof = Some f \<Longrightarrow> appendonly_Close aof e = (None, aof\<lparr>aof_file := None\<rparr>, e)"
  by (simp add: appendonly_Close_def File_Close_def)

lemma appendonly_Get_header:
  assumes op: "aof_file aof = Some f"
    and hd: "take 26 c = PutUint16 fv @ PutUint64 off @ PutUint64 nxt @ PutUint64 v"
    and nx: "nextOffset aof = offset aof + of_nat (length d)"
    and b: "26 + unat (offset aof) + length d < 2 ^ 63"
    and rd: "take (length d) (drop (26 + unat (offset aof)) c) = d"
  shows "appendonly_Get aof (RegularFile c) =
     (Ok (v, d), aof\<lparr>aof_file := Some (26 + unat (offset aof) + length d)\<rparr>, RegularFile c)"
proof -
  let ?O = "unat (offset aof)"
  have len: "sint (nextOffset aof - offset aof) = int (length d)"
    using b by (simp add: nx sint_of_nat_small)
  have s: "sint (headerOffset + offset aof) = int (26 + ?O)"
    using b by (intro sint_headerOffset_plus) simp
  have sk: "File_Seek 26 (sint (headerOffset + offset aof)) = (None, 26 + ?O)"
    by (simp only: s File_Seek_def nat_int of_nat_less_0_iff if_False)
  have v: "readVersionHeader aof (RegularFile c) = ((v, None), aof\<lparr>aof_file := Some 26\<rparr>)"
    by (rule readVersionHeader_header [OF op hd])
  have r: "File_Read (26 + ?O) (RegularFile c) (length d)
      = ((d, length d, None), 26 + ?O + length d)"
    using rd by (cases "d = []") (auto simp: File_Read_def file_content_def Let_def)
  show ?thesis
    by (simp add: appendonly_Get_def op len v sk r)
qed

text \<open>A successful \<open>Open\<close> of a closed datastore leaves it open, on a regular file, with
  the file version and the path it had.\<close>

lemma appendonly_Open_closed_ok:
  assumes "aof_file aof = None" and "appendonly_Open aof e = (None, a1, e1)"
  shows "\<exists>f c. aof_file a1 = Some f \<and> e1 = RegularFile c \<and> fileVersion a1 = fileVersion aof
           \<and> fp a1 = fp aof"
proof -
  obtain f c where o: "os_OpenFile e = (Inr f, RegularFile c)"
    using assms by (cases e) (auto simp: appendonly_Open_def os_OpenFile_def)
  let ?a = "aof\<lparr>aof_file := Some f\<rparr>"
  obtain x1 f1 where r1: "readFileVersionHeader ?a (RegularFile c) = ((x1, None), ?a\<lparr>aof_file := Some f1\<rparr>)"
    using readFileVersionHeader_open [of ?a f "RegularFile c"] by auto
  let ?b = "aof\<lparr>aof_file := Some f1\<rparr>"
  obtain x2 f2 where r2: "readOffsetHeader ?b (RegularFile c) = ((x2, None), ?b\<lparr>aof_file := Some f2\<rparr>)"
    using readOffsetHeader_open [of ?b f1 "RegularFile c"] by auto
  let ?c = "aof\<lparr>aof_file := Some f2, offset := x2\<rparr>"
  obtain x3 f3 where r3: "readNextOffsetHeader ?c (RegularFile c) = ((x3, None), ?c\<lparr>aof_file := Some f3\<rparr>)"
    using readNextOffsetHeader_open [of ?c f2 "RegularFile c"] by auto
  show ?thesis
    using assms o r1 r2 r3
    by (auto simp: appendonly_Open_def os_Stat_def Let_def split: if_splits)
qed

text \<open>
  C7. Let \<open>Open\<close> of a new datastore succeed on a store file (a file that does not exist
  yet, an empty one, or one whose header passes the checks) whose \<open>NextOffset\<close> does not
  point beyond the end of the file, and let the file with the two values stay below
  \<open>2 ^ 63\<close> bytes, the range of a file offset. Then \<open>put (v1, d1)\<close>, \<open>put (v2, d2)\<close>,
  \<open>close\<close> and \<open>open\<close> all succeed and \<open>get\<close> returns \<open>(v2, d2)\<close>. The header then
  references the second value: \<open>Offset\<close> is the old \<open>NextOffset\<close> plus the length of
  \<open>d1\<close>, and \<open>NextOffset\<close> is \<open>Offset\<close> plus the length of \<open>d2\<close>. The bytes of \<open>d1\<close>
  are still in the data region, from the old \<open>NextOffset\<close> up to the new \<open>Offset\<close>, which
  is outside what the header references.
\<close>

theorem appendonly_roundtrip:
  assumes o1: "appendonly_Open (NewDatastore path) e0 = (None, a1, e1)"
    and b: "26 + unat (nextOffset a1) + length d1 + length d2 < 2 ^ 63"
    and w: "unat (nextOffset a1) \<le> length (file_content e1)"
  shows "\<exists>a2 e2 a3 e3 a4 e4 a5 e5 a6 c.
      appendonly_Put v1 d1 a1 e1 = (None, a2, e2)
    \<and> appendonly_Put v2 d2 a2 e2 = (None, a3, e3)
    \<and> appendonly_Close a3 e3 = (None, a4, e4)
    \<and> appendonly_Open a4 e4 = (None, a5, e5)
    \<and> appendonly_Get a5 e5 = (Ok (v2, d2), a6, RegularFile c)
    \<and> offset a6 = nextOffset a1 + of_nat (length d1)
    \<and> nextOffset a6 = offset a6 + of_nat (length d2)
    \<and> take (length d1) (drop (26 + unat (nextOffset a1)) c) = d1"
proof -
  let ?N = "unat (nextOffset a1)"
  from appendonly_Open_closed_ok [OF _ o1] obtain f c1 where
    a1: "aof_file a1 = Some f" "e1 = RegularFile c1" "fileVersion a1 = 1"
    by (auto simp: NewDatastore_def)
  let ?a2 = "a1\<lparr>aof_file := Some 26, offset := nextOffset a1,
            nextOffset := nextOffset a1 + of_nat (length d1)\<rparr>"
  have b1: "26 + ?N + length d1 < 2 ^ 63" using b by simp
  from appendonly_Put_open [OF a1(1) b1, of v1 c1] obtain c2 where
    p1: "appendonly_Put v1 d1 a1 (RegularFile c1) = (None, ?a2, RegularFile c2)"
    and r1: "take (length d1) (drop (26 + ?N) c2) = d1"
    and l0: "length c1 \<le> length c2"
    and l1: "d1 \<noteq> [] \<longrightarrow> 26 + ?N + length d1 \<le> length c2"
    by blast
  have n2: "unat (nextOffset ?a2) = ?N + length d1"
    using b by (simp add: unat_plus_len)
  let ?a3 = "?a2\<lparr>aof_file := Some 26, offset := nextOffset ?a2,
            nextOffset := nextOffset ?a2 + of_nat (length d2)\<rparr>"
  have b2: "26 + unat (nextOffset ?a2) + length d2 < 2 ^ 63" using b n2 by simp
  from appendonly_Put_open [of ?a2 26 d2 v2 c2, OF _ b2] obtain c3 where
    p2: "appendonly_Put v2 d2 ?a2 (RegularFile c2) = (None, ?a3, RegularFile c3)"
    and h3: "take 26 c3 = PutUint16 (fileVersion ?a2) @ PutUint64 (nextOffset ?a2)
          @ PutUint64 (nextOffset ?a2 + of_nat (length d2)) @ PutUint64 v2"
    and r2: "take (length d2) (drop (26 + unat (nextOffset ?a2)) c3) = d2"
    and l2: "length c2 \<le> length c3"
    and k2: "\<forall>q k. 26 \<le> q \<and> q + k \<le> 26 + unat (nextOffset ?a2) \<and> q + k \<le> length c2
           \<longrightarrow> take k (drop q c3) = take k (drop q c2)"
    by auto
  let ?a4 = "?a3\<lparr>aof_file := None\<rparr>"
  have cl: "appendonly_Close ?a3 (RegularFile c3) = (None, ?a4, RegularFile c3)"
    by (rule appendonly_Close_open) simp
  let ?off = "nextOffset a1 + of_nat (length d1)"
  let ?nxt = "?off + of_nat (length d2)"
  have h3': "take 26 c3 = PutUint16 (fileVersion ?a4) @ PutUint64 ?off @ PutUint64 ?nxt @ PutUint64 v2"
    using h3 by simp
  have uo: "unat ?off = ?N + length d1" using n2 by simp
  have le: "?off \<le> ?nxt"
    using b uo by (intro le_plus_len) simp
  have l3: "26 \<le> length c3" by (rule header_length [OF h3'])
  have so: "sint ?off = int (unat ?off)"
    using sint_small [of ?off] b uo by simp
  have "unat ?off \<le> length c3"
  proof (cases "d1 = []")
    case True
    with w a1(2) l0 l2 uo show ?thesis by (simp add: file_content_def)
  next
    case False
    with l1 l2 uo show ?thesis by simp
  qed
  then have sz: "sint ?off \<le> int (length c3)"
    by (simp only: so of_nat_le_iff)
  let ?a5 = "?a4\<lparr>aof_file := Some 18, offset := ?off, nextOffset := ?nxt\<rparr>"
  have o2: "appendonly_Open ?a4 (RegularFile c3) = (None, ?a5, RegularFile c3)"
    using appendonly_Open_header [of ?a4 c3 ?off ?nxt v2, OF _ h3' le sz] by simp
  let ?a6 = "?a5\<lparr>aof_file := Some (26 + unat ?off + length d2)\<rparr>"
  have b3: "26 + unat (offset ?a5) + length d2 < 2 ^ 63" using b uo by simp
  have rd: "take (length d2) (drop (26 + unat (offset ?a5)) c3) = d2"
    using r2 by simp
  have g: "appendonly_Get ?a5 (RegularFile c3) = (Ok (v2, d2), ?a6, RegularFile c3)"
    using appendonly_Get_header [of ?a5 18 c3 "fileVersion ?a4" ?off ?nxt v2 d2, OF _ h3' _ b3 rd]
    by simp
  have res: "take (length d1) (drop (26 + ?N) c3) = d1"
  proof (cases "d1 = []")
    case True
    then show ?thesis by simp
  next
    case False
    with l1 have "26 + ?N + length d1 \<le> length c2" by simp
    with k2 n2 have "take (length d1) (drop (26 + ?N) c3) = take (length d1) (drop (26 + ?N) c2)"
      by simp
    with r1 show ?thesis by simp
  qed
  from p1 p2 cl o2 g res a1(2) show ?thesis by simp
qed

theorem appendonly_roundtrip_witness:
  "\<exists>a1 e1 a2 e2 a3 e3 a4 e4 a5 e5 a6 c.
      appendonly_Open (NewDatastore ''store'') NoEntry = (None, a1, e1)
    \<and> appendonly_Put 1 [1, 2] a1 e1 = (None, a2, e2)
    \<and> appendonly_Put 2 [3] a2 e2 = (None, a3, e3)
    \<and> appendonly_Close a3 e3 = (None, a4, e4)
    \<and> appendonly_Open a4 e4 = (None, a5, e5)
    \<and> appendonly_Get a5 e5 = (Ok (2, [3]), a6, RegularFile c)
    \<and> offset a6 = 2 \<and> nextOffset a6 = 3
    \<and> take 2 (drop 26 c) = [1, 2]"
proof -
  let ?a1 = "(NewDatastore ''store'')\<lparr>aof_file := Some 0\<rparr>"
  have o: "appendonly_Open (NewDatastore ''store'') NoEntry = (None, ?a1, RegularFile [])"
    by (rule appendonly_Open_fresh) (simp_all add: NewDatastore_def)
  have b: "26 + unat (nextOffset ?a1) + length [1, 2 :: byte] + length [3 :: byte] < 2 ^ 63"
    by (simp add: NewDatastore_def)
  have w: "unat (nextOffset ?a1) \<le> length (file_content (RegularFile []))"
    by (simp add: NewDatastore_def)
  from appendonly_roundtrip [OF o b w, of 1 2] obtain a2 e2 a3 e3 a4 e4 a5 e5 a6 c where
    "appendonly_Put 1 [1, 2] ?a1 (RegularFile []) = (None, a2, e2)"
    "appendonly_Put 2 [3] a2 e2 = (None, a3, e3)"
    "appendonly_Close a3 e3 = (None, a4, e4)"
    "appendonly_Open a4 e4 = (None, a5, e5)"
    "appendonly_Get a5 e5 = (Ok (2, [3]), a6, RegularFile c)"
    "offset a6 = nextOffset ?a1 + of_nat (length [1, 2 :: byte])"
    "nextOffset a6 = offset a6 + of_nat (length [3 :: byte])"
    "take (length [1, 2 :: byte]) (drop (26 + unat (nextOffset ?a1)) c) = [1, 2]"
    by blast
  with o show ?thesis
    by (simp add: NewDatastore_def numeral_2_eq_2)
qed

text \<open>
  C10. \<open>Open\<close> on a datastore that is already open returns no error and leaves the
  datastore (its file, its offset and its next offset) and the store file as they are.
  \<open>Close\<close> on a datastore that is not open returns no error and changes nothing. After a
  \<open>Close\<close> that returned no error, \<open>Get\<close> and \<open>Put\<close> return \<open>FileNotOpen\<close> and change
  nothing.
\<close>

theorem appendonly_open_close_idempotent:
  "(aof_file aof \<noteq> None \<longrightarrow> appendonly_Open aof e = (None, aof, e))
   \<and> (aof_file aof = None \<longrightarrow> appendonly_Close aof e = (None, aof, e))
   \<and> (appendonly_Close aof e = (None, aof', e') \<longrightarrow>
        appendonly_Get aof' e' = (Err ErrFileNotOpen, aof', e')
        \<and> appendonly_Put version data aof' e' = (Some ErrFileNotOpen, aof', e'))"
  by (auto simp: appendonly_Open_def appendonly_Close_def appendonly_Get_def appendonly_Put_def
      File_Close_def split: option.splits)

theorem appendonly_open_close_idempotent_witness:
  "appendonly_Open (example_store\<lparr>aof_file := Some 0\<rparr>) (RegularFile torn_header)
      = (None, example_store\<lparr>aof_file := Some 0\<rparr>, RegularFile torn_header)
   \<and> appendonly_Close example_store NoEntry = (None, example_store, NoEntry)
   \<and> appendonly_Close (example_store\<lparr>aof_file := Some 0\<rparr>) (RegularFile [])
      = (None, example_store, RegularFile [])
   \<and> appendonly_Get example_store (RegularFile []) = (Err ErrFileNotOpen, example_store, RegularFile [])
   \<and> appendonly_Put 1 [1, 2] example_store (RegularFile [])
      = (Some ErrFileNotOpen, example_store, RegularFile [])"
proof -
  have c: "appendonly_Close (example_store\<lparr>aof_file := Some 0\<rparr>) (RegularFile [])
      = (None, example_store, RegularFile [])"
    by (simp add: appendonly_Close_def File_Close_def example_store_def NewDatastore_def)
  have n: "aof_file example_store = None" "aof_file (example_store\<lparr>aof_file := Some 0\<rparr>) \<noteq> None"
    by (simp_all add: example_store_def NewDatastore_def)
  show ?thesis
    using appendonly_open_close_idempotent [of "example_store\<lparr>aof_file := Some 0\<rparr>"
        "RegularFile torn_header"]
      appendonly_open_close_idempotent [of example_store NoEntry]
      appendonly_open_close_idempotent [of "example_store\<lparr>aof_file := Some 0\<rparr>" "RegularFile []"
        example_store "RegularFile []" 1 "[1, 2]"]
      c n
    by simp
qed

text \<open>What \<open>Open\<close> of a closed datastore answers on a file with a whole header: the three
  checks in their order, the third on the signed reading of the offset.\<close>

lemma appendonly_Open_checks:
  assumes cl: "aof_file aof = None"
    and hd: "take 26 c = PutUint16 fv @ PutUint64 off @ PutUint64 nxt @ PutUint64 v"
  shows "fst (appendonly_Open aof (RegularFile c)) =
     (if fv \<noteq> fileVersion aof then Some ErrUnexpectedFileVersion
      else if nxt < off then Some ErrNextOffsetOutOfRange
      else if int (length c) < sint off then Some ErrOffsetOutOfRange
      else None)"
proof -
  have l: "26 \<le> length c" by (rule header_length [OF hd])
  have r1: "readFileVersionHeader (aof\<lparr>aof_file := Some 0\<rparr>) (RegularFile c)
      = ((fv, None), aof\<lparr>aof_file := Some 2\<rparr>)"
    using readFileVersionHeader_header [of "aof\<lparr>aof_file := Some 0\<rparr>" 0 c fv off nxt v]
      hd by simp
  have r2: "readOffsetHeader (aof\<lparr>aof_file := Some 2\<rparr>) (RegularFile c)
      = ((off, None), aof\<lparr>aof_file := Some 10\<rparr>)"
    using readOffsetHeader_header [of "aof\<lparr>aof_file := Some 2\<rparr>" 2 c fv off nxt v]
      hd by simp
  have r3: "readNextOffsetHeader (aof\<lparr>aof_file := Some 10, offset := off\<rparr>) (RegularFile c)
      = ((nxt, None), aof\<lparr>aof_file := Some 18, offset := off\<rparr>)"
    using readNextOffsetHeader_header [of "aof\<lparr>aof_file := Some 10, offset := off\<rparr>" 10 c
        fv off nxt v] hd by simp
  show ?thesis
    using cl l
    by (auto simp add: appendonly_Open_def os_OpenFile_def os_Stat_def r1 r2 r3 Let_def)
qed

lemma torn_header_fields:
  "take 26 torn_header = PutUint16 1 @ PutUint64 (2 ^ 63) @ PutUint64 (2 ^ 63) @ PutUint64 7"
  by (simp add: torn_header_def PutUint16_def PutUint64_def)

text \<open>
  C6 does not hold of the code where the offset is \<open>2 ^ 63\<close> or more. The 26-byte file
  \<open>torn_header\<close> has file version 1 and the offset and next offset \<open>2 ^ 63\<close>; the
  offset exceeds the size of the file, yet \<open>Open\<close> returns no error and takes the offset
  over: \<^verbatim>\<open>int64(aof.offset)\<close> is negative, so the comparison with the size does not fire.
\<close>

theorem appendonly_Open_offset_beyond_file:
  "appendonly_Open example_store (RegularFile torn_header)
     = (None, example_store\<lparr>aof_file := Some 18, offset := 2 ^ 63, nextOffset := 2 ^ 63\<rparr>,
        RegularFile torn_header)
   \<and> length torn_header = 26
   \<and> unat (2 ^ 63 :: u64) = 9223372036854775808"
proof -
  have cl: "aof_file example_store = None"
    by (simp add: example_store_def NewDatastore_def)
  have hd: "take 26 torn_header = PutUint16 (fileVersion example_store) @ PutUint64 (2 ^ 63)
      @ PutUint64 (2 ^ 63) @ PutUint64 7"
    using torn_header_fields by (simp add: example_store_def NewDatastore_def)
  have le: "(2 ^ 63 :: u64) \<le> 2 ^ 63" by simp
  have sz: "sint (2 ^ 63 :: u64) \<le> int (length torn_header)"
    by (simp add: torn_header_def)
  have "appendonly_Open example_store (RegularFile torn_header)
     = (None, example_store\<lparr>aof_file := Some 18, offset := 2 ^ 63, nextOffset := 2 ^ 63\<rparr>,
        RegularFile torn_header)"
    by (rule appendonly_Open_header [OF cl hd le sz])
  then show ?thesis by (simp add: torn_header_def)
qed


end
